theory Spec2Isabelle
  imports Main "HOL-Library.Word"
begin

unbundle bit_operations_syntax

section \<open>web-share: a minimal HTTP file server\<close>

text \<open>
  The program is one Go file, \<^verbatim>\<open>web-share.go\<close>. A Go \<^verbatim>\<open>string\<close> is a sequence of
  bytes and \<^verbatim>\<open>len\<close> counts bytes, so a Go string is a \<^typ>\<open>string\<close> here (one
  \<^typ>\<open>char\<close> per byte) and \<^verbatim>\<open>len\<close> is \<^const>\<open>length\<close>. A Go \<^verbatim>\<open>byte\<close> is an
  8-bit word and \<^verbatim>\<open>uint\<close> a 64-bit word (the amd64 width). An \<^verbatim>\<open>error\<close> value is
  kept as the text its \<^verbatim>\<open>Error()\<close> method returns; \<^verbatim>\<open>err != nil\<close> is the \<open>Inl\<close>
  side of a sum or \<open>Some\<close>.
\<close>

type_synonym byte = "8 word"
type_synonym uint = "64 word"
type_synonym error = string

text \<open>\<^verbatim>\<open>time.Time\<close>, as seconds since the epoch.\<close>

type_synonym Time = int

subsection \<open>Values of the standard library that the program handles\<close>

text \<open>
  \<^verbatim>\<open>http.Header\<close> is \<^verbatim>\<open>map[string][]string\<close>. \<^verbatim>\<open>Get\<close> returns the first value
  stored under the key, or the empty string; \<^verbatim>\<open>Set\<close> replaces whatever is stored
  under the key by the single value. Both canonicalise the key first; every key the
  program uses (\<^verbatim>\<open>Server\<close>, \<^verbatim>\<open>Content-Type\<close>, \<^verbatim>\<open>Cache-Control\<close>, \<^verbatim>\<open>Pragma\<close>,
  \<^verbatim>\<open>Expires\<close>, \<^verbatim>\<open>Range\<close>) is already canonical.
\<close>

type_synonym Header = "string \<rightharpoonup> string list"

definition Header_Get :: "Header \<Rightarrow> string \<Rightarrow> string" where
  "Header_Get h key = (case h key of None \<Rightarrow> [] | Some [] \<Rightarrow> [] | Some (v # vs) \<Rightarrow> v)"

definition Header_Set :: "Header \<Rightarrow> string \<Rightarrow> string \<Rightarrow> Header" where
  "Header_Set h key v = h(key \<mapsto> [v])"

text \<open>
  The fields of \<^verbatim>\<open>*http.Request\<close> that the handler reads; \<open>URL_Path\<close> is
  \<^verbatim>\<open>req.URL.Path\<close>.
\<close>

record Request =
  RemoteAddr :: string
  Method :: string
  RequestURI :: string
  URL_Path :: string
  Header :: Header

text \<open>
  An \<^verbatim>\<open>http.ResponseWriter\<close>: the header map, the status line once it has been
  written, and the body written so far. \<^verbatim>\<open>WriteHeader\<close> takes effect once;
  \<^verbatim>\<open>Write\<close> sends status 200 first when no status has been written.
\<close>

record ResponseWriter =
  header :: Header
  status :: "nat option"
  body :: "byte list"

definition newResponseWriter :: ResponseWriter where
  "newResponseWriter = \<lparr>header = Map.empty, status = None, body = []\<rparr>"

definition SetHeader :: "ResponseWriter \<Rightarrow> string \<Rightarrow> string \<Rightarrow> ResponseWriter" where
  "SetHeader w key v = w\<lparr>header := Header_Set (header w) key v\<rparr>"

definition WriteHeader :: "ResponseWriter \<Rightarrow> nat \<Rightarrow> ResponseWriter" where
  "WriteHeader w code = (if status w = None then w\<lparr>status := Some code\<rparr> else w)"

definition bytes :: "string \<Rightarrow> byte list" where
  "bytes s = map of_char s"

definition Write :: "ResponseWriter \<Rightarrow> byte list \<Rightarrow> ResponseWriter" where
  "Write w p = (let w1 = WriteHeader w 200 in w1\<lparr>body := body w1 @ p\<rparr>)"

definition StatusBadRequest :: nat where
  "StatusBadRequest = 400"

text \<open>
  \<^verbatim>\<open>http.Error(w, error, code)\<close> of \<^verbatim>\<open>net/http\<close>, as in the Go release the README
  names (1.10): it sets \<^verbatim>\<open>Content-Type\<close> and \<^verbatim>\<open>X-Content-Type-Options\<close>, writes the
  status and prints the message as one line.
\<close>

definition http_Error :: "ResponseWriter \<Rightarrow> string \<Rightarrow> nat \<Rightarrow> ResponseWriter" where
  "http_Error w err code =
     (let w1 = SetHeader w ''Content-Type'' ''text/plain; charset=utf-8'';
          w2 = SetHeader w1 ''X-Content-Type-Options'' ''nosniff'';
          w3 = WriteHeader w2 code
      in Write w3 (bytes (err @ ''\<newline>'')))"

text \<open>
  The library calls whose behaviour the program does not decide are parameters of the
  model: \<^verbatim>\<open>url.QueryUnescape\<close> (the decoded string, or the error),
  \<^verbatim>\<open>http.ServeContent(w, req, name, modtime, content)\<close>, and the handler that
  \<^verbatim>\<open>http.FileServer(http.Dir(root))\<close> returns, applied to a writer and a request. The
  file server reads the file system under \<open>root\<close>; a different file system is a
  different \<open>http_FileServer\<close>.
\<close>

record stdlib =
  url_QueryUnescape :: "string \<Rightarrow> error + string"
  http_ServeContent :: "ResponseWriter \<Rightarrow> Request \<Rightarrow> string \<Rightarrow> Time \<Rightarrow> byte list \<Rightarrow> ResponseWriter"
  http_FileServer :: "string \<Rightarrow> ResponseWriter \<Rightarrow> Request \<Rightarrow> ResponseWriter"

text \<open>
  What the program asks of the machine it runs on: the interface table
  (\<^verbatim>\<open>net.InterfaceByName\<close>), \<^verbatim>\<open>filepath.Abs\<close>, \<^verbatim>\<open>os.Stat\<close>, and
  \<^verbatim>\<open>srv.ListenAndServe()\<close>, which serves until it returns an error (\<open>None\<close>: it
  keeps serving). Of a \<^verbatim>\<open>net.Interface\<close> the program reads \<^verbatim>\<open>Flags\<close> and calls
  \<^verbatim>\<open>Addrs()\<close>; of an \<^verbatim>\<open>os.FileInfo\<close> it calls \<^verbatim>\<open>IsDir()\<close>. A \<^verbatim>\<open>net.Addr\<close> is an
  interface value: a \<^verbatim>\<open>*net.IPNet\<close> (address and mask) or some other implementation.
\<close>

datatype Addr = IPNet "byte list" "byte list" | OtherAddr string

record Interface =
  Flags :: uint
  Addrs :: "error + Addr list"

record FileInfo =
  IsDir :: bool

record host =
  net_InterfaceByName :: "string \<Rightarrow> error + Interface"
  filepath_Abs :: "string \<Rightarrow> error + string"
  os_Stat :: "string \<Rightarrow> error + FileInfo"
  ListenAndServe :: "string \<Rightarrow> error option"

text \<open>\<^verbatim>\<open>net.FlagUp\<close>, the first of the \<^verbatim>\<open>1 << iota\<close> flags.\<close>

definition FlagUp :: uint where
  "FlagUp = 1"

text \<open>
  \<^verbatim>\<open>IP.To4\<close>: a 4-byte address is IPv4; a 16-byte address whose first ten bytes are
  zero and whose next two are \<^verbatim>\<open>0xff\<close> is IPv4 in its last four bytes; anything else
  has no IPv4 form (\<^verbatim>\<open>nil\<close>). The four bytes are returned as a tuple.
\<close>

definition To4 :: "byte list \<Rightarrow> (byte \<times> byte \<times> byte \<times> byte) option" where
  "To4 ip =
     (if length ip = 4 then Some (ip ! 0, ip ! 1, ip ! 2, ip ! 3)
      else if length ip = 16 \<and> list_all (\<lambda>b. b = 0) (take 10 ip)
              \<and> ip ! 10 = 0xff \<and> ip ! 11 = 0xff
        then Some (ip ! 12, ip ! 13, ip ! 14, ip ! 15)
      else None)"

text \<open>Decimal digits of a number, as \<^verbatim>\<open>strconv.FormatUint(v, 10)\<close> prints them.\<close>

function FormatUint10 :: "nat \<Rightarrow> string" where
  "FormatUint10 n =
     (if n < 10 then [''0123456789'' ! n]
      else FormatUint10 (n div 10) @ [''0123456789'' ! (n mod 10)])"
  by pat_completeness auto
termination
  by (relation "measure (\<lambda>n. n)") auto

text \<open>\<^verbatim>\<open>IP.String\<close> on an IPv4 address: dotted decimal.\<close>

definition IP_String :: "byte \<times> byte \<times> byte \<times> byte \<Rightarrow> string" where
  "IP_String ip4 =
     (case ip4 of (a, b, c, d) \<Rightarrow>
        FormatUint10 (unat a) @ ''.'' @ FormatUint10 (unat b) @ ''.''
        @ FormatUint10 (unat c) @ ''.'' @ FormatUint10 (unat d))"

subsection \<open>The error stream\<close>

text \<open>
  Everything the program prints goes to \<^verbatim>\<open>os.Stderr\<close>: \<^verbatim>\<open>die\<close> writes a string, and
  the logger \<^verbatim>\<open>trace\<close> prints its operands on one timestamped line. The stream is the
  list of these entries, oldest first; a \<open>Println\<close> keeps the operands it was given.
\<close>

datatype entry = WriteString string | Println "string list"

subsection \<open>die, uintToString, shortenURI\<close>

text \<open>
  \<^verbatim>\<open>die(msg, err)\<close> writes one of four messages and calls \<^verbatim>\<open>os.Exit(1)\<close>; it never
  returns. \<open>Exit text code\<close> is the text written and the exit status.
\<close>

datatype exit = Exit string nat

definition Error :: "error option \<Rightarrow> string" where
  "Error err = (case err of Some e \<Rightarrow> e | None \<Rightarrow> [])"

definition die :: "string \<Rightarrow> error option \<Rightarrow> exit" where
  "die msg err =
     Exit (if length msg > 0 \<and> err \<noteq> None then ''ERROR: '' @ msg @ '': '' @ Error err @ ''\<newline>''
           else if length msg > 0 then ''ERROR: '' @ msg @ ''\<newline>''
           else if err \<noteq> None then ''ERROR: '' @ Error err @ ''\<newline>''
           else ''ERROR: Unknown internal error\<newline>'') 1"

definition uintToString :: "uint \<Rightarrow> string" where
  "uintToString val = FormatUint10 (unat val)"

text \<open>\<^verbatim>\<open>const maxURI = 500\<close>, local to \<^verbatim>\<open>shortenURI\<close>.\<close>

definition maxURI :: nat where
  "maxURI = 500"

text \<open>
  \<^verbatim>\<open>if len(uri) > maxURI { uri = uri[:maxURI] + " ..." }; return uri\<close>.
  The slice \<^verbatim>\<open>uri[:maxURI]\<close> is taken only when the string is longer than
  \<^verbatim>\<open>maxURI\<close>, so it is always in range.
\<close>

definition shortenURI :: "string \<Rightarrow> string" where
  "shortenURI uri = (if length uri > maxURI then take maxURI uri @ '' ...'' else uri)"

subsection \<open>findIP\<close>

text \<open>
  The loop over the address list: the first \<^verbatim>\<open>*net.IPNet\<close> whose address has an
  IPv4 form is returned as a string; when the list is exhausted the result is the empty
  string.
\<close>

fun findIP_loop :: "Addr list \<Rightarrow> string" where
  "findIP_loop [] = []"
| "findIP_loop (a # addrs) =
     (case a of
        IPNet ip msk \<Rightarrow>
          (case To4 ip of Some ip4 \<Rightarrow> IP_String ip4 | None \<Rightarrow> findIP_loop addrs)
      | OtherAddr s \<Rightarrow> findIP_loop addrs)"

definition findIP :: "host \<Rightarrow> string \<Rightarrow> exit + string" where
  "findIP h itf =
     (case net_InterfaceByName h itf of
        Inl err \<Rightarrow> Inl (die ''Invalid interface name'' (Some err))
      | Inr it \<Rightarrow>
          if Flags it AND FlagUp = 0 then Inl (die ''Interface is DOWN'' None)
          else (case Addrs it of
                  Inl err \<Rightarrow> Inl (die ''Cannot get interface address list'' (Some err))
                | Inr addrs \<Rightarrow> Inr (findIP_loop addrs)))"

subsection \<open>absPath\<close>

definition absPath :: "host \<Rightarrow> string \<Rightarrow> exit + string" where
  "absPath h dir =
     (case filepath_Abs h dir of
        Inl err \<Rightarrow> Inl (die ''Cannot build absolute pathname'' (Some err))
      | Inr root \<Rightarrow>
          (case os_Stat h root of
             Inl err \<Rightarrow> Inl (die [] (Some err))
           | Inr info \<Rightarrow>
               if \<not> IsDir info then Inl (die (''Not a directory: '' @ root) None)
               else Inr root))"

subsection \<open>The embedded icon\<close>

text \<open>
  \<^verbatim>\<open>var favicon = [...]byte{ ... }\<close>: the 2942 bytes of the array literal, in
  consecutive pieces of 128 bytes, in the order of the source.
\<close>

definition favicon_0000 :: "8 word list" where
  "favicon_0000 = [
    0x89, 0x50, 0x4E, 0x47, 0x0D, 0x0A, 0x1A, 0x0A,
    0x00, 0x00, 0x00, 0x0D, 0x49, 0x48, 0x44, 0x52,
    0x00, 0x00, 0x00, 0x40, 0x00, 0x00, 0x00, 0x40,
    0x10, 0x04, 0x00, 0x00, 0x00, 0x50, 0xF0, 0x65,
    0x16, 0x00, 0x00, 0x00, 0x04, 0x67, 0x41, 0x4D,
    0x41, 0x00, 0x00, 0xB1, 0x8F, 0x0B, 0xFC, 0x61,
    0x05, 0x00, 0x00, 0x00, 0x01, 0x73, 0x52, 0x47,
    0x42, 0x00, 0xAE, 0xCE, 0x1C, 0xE9, 0x00, 0x00,
    0x00, 0x20, 0x63, 0x48, 0x52, 0x4D, 0x00, 0x00,
    0x7A, 0x26, 0x00, 0x00, 0x80, 0x84, 0x00, 0x00,
    0xFA, 0x00, 0x00, 0x00, 0x80, 0xE8, 0x00, 0x00,
    0x75, 0x30, 0x00, 0x00, 0xEA, 0x60, 0x00, 0x00,
    0x3A, 0x98, 0x00, 0x00, 0x17, 0x70, 0x9C, 0xBA,
    0x51, 0x3C, 0x00, 0x00, 0x00, 0x02, 0x62, 0x4B,
    0x47, 0x44, 0xFF, 0xFF, 0x14, 0xAB, 0x31, 0xCD,
    0x00, 0x00, 0x00, 0x09, 0x70, 0x48, 0x59, 0x73]"

definition favicon_0128 :: "8 word list" where
  "favicon_0128 = [
    0x00, 0x00, 0x00, 0x48, 0x00, 0x00, 0x00, 0x48,
    0x00, 0x46, 0xC9, 0x6B, 0x3E, 0x00, 0x00, 0x0A,
    0xD9, 0x49, 0x44, 0x41, 0x54, 0x78, 0xDA, 0xED,
    0x9B, 0x69, 0x70, 0x54, 0x55, 0x1A, 0x86, 0x9F,
    0x73, 0x6F, 0x2F, 0xE9, 0x24, 0x9D, 0x3D, 0x21,
    0x34, 0x21, 0x80, 0x11, 0x02, 0x86, 0x48, 0x92,
    0x66, 0x1B, 0x20, 0x04, 0x04, 0x29, 0x01, 0x11,
    0xC7, 0xA5, 0xDC, 0x10, 0x65, 0x86, 0x88, 0x8C,
    0xE3, 0x8C, 0x96, 0x88, 0x32, 0x22, 0xD6, 0x20,
    0x2E, 0x28, 0x35, 0xEE, 0x0E, 0x0E, 0x83, 0xA2,
    0x38, 0x55, 0x2A, 0x08, 0x88, 0x80, 0x44, 0x04,
    0x71, 0x40, 0x50, 0x20, 0x01, 0x22, 0x4B, 0x90,
    0xC4, 0xB0, 0x06, 0xC8, 0xDE, 0xE9, 0x74, 0x7A,
    0xBD, 0xF7, 0xCC, 0x8F, 0x20, 0x8A, 0xE0, 0x4C,
    0xA5, 0x1B, 0xE9, 0x4C, 0xC9, 0x5B, 0xD5, 0x7F,
    0xBA, 0xEE, 0xFD, 0xCE, 0xF7, 0x3E, 0x7D, 0xEE]"

definition favicon_0256 :: "8 word list" where
  "favicon_0256 = [
    0x39, 0xE7, 0x9E, 0xEF, 0x34, 0xFC, 0xCA, 0x25,
    0xCE, 0xF7, 0xA5, 0x7D, 0x3C, 0x46, 0x3A, 0x90,
    0x24, 0x73, 0x88, 0x65, 0x21, 0x2A, 0x32, 0x84,
    0x16, 0xF2, 0x91, 0xCC, 0xA1, 0x59, 0xC4, 0x52,
    0x5D, 0xAC, 0xE3, 0x09, 0xB7, 0xE1, 0xFF, 0x0A,
    0xC0, 0xBE, 0x80, 0x68, 0xE6, 0x8B, 0xCE, 0x34,
    0x1A, 0xF2, 0xE9, 0x6C, 0x9A, 0x2A, 0x97, 0xAA,
    0xD9, 0x94, 0x88, 0x99, 0x21, 0x01, 0xE8, 0xC2,
    0x66, 0x51, 0xA0, 0xAD, 0x43, 0xF8, 0xC0, 0xE3,
    0xAF, 0x95, 0xC7, 0x65, 0x01, 0x65, 0x54, 0x96,
    0xD8, 0x43, 0x8A, 0x7A, 0xE1, 0x01, 0xD8, 0xED,
    0xC4, 0x90, 0x22, 0x76, 0x51, 0x9F, 0x30, 0x86,
    0xA6, 0x1E, 0xF9, 0xC4, 0x64, 0xA4, 0x73, 0xC0,
    0xFA, 0x99, 0x3C, 0x29, 0x96, 0x86, 0x92, 0xAA,
    0x88, 0x25, 0x87, 0x2E, 0xEE, 0x91, 0x68, 0x47,
    0x7A, 0xE1, 0x29, 0x5B, 0x43, 0xF5, 0xC9, 0xB5]"

definition favicon_0384 :: "8 word list" where
  "favicon_0384 = [
    0xB2, 0x4A, 0x1B, 0x5C, 0x92, 0xC2, 0xCE, 0x70,
    0x9B, 0x3F, 0x03, 0xC0, 0xDE, 0x0D, 0x41, 0xBC,
    0x58, 0x8F, 0x9A, 0x7C, 0x00, 0x46, 0x2F, 0x20,
    0x30, 0x7E, 0x18, 0x6A, 0x8F, 0x41, 0xB8, 0x22,
    0xEF, 0xC3, 0x2B, 0x8C, 0x21, 0xB5, 0x60, 0x90,
    0xB3, 0x89, 0xF0, 0x1D, 0x45, 0x1E, 0xCD, 0xC3,
    0x5F, 0x14, 0x8F, 0x67, 0x79, 0x1A, 0x1C, 0x6A,
    0x26, 0x53, 0xEB, 0x57, 0x5C, 0x84, 0x3B, 0xDC,
    0x00, 0x0C, 0x00, 0xA8, 0xA4, 0xA0, 0x9B, 0x07,
    0x41, 0xDE, 0x68, 0xC4, 0x6D, 0x0E, 0x94, 0x21,
    0x19, 0xC8, 0xC8, 0xED, 0x58, 0x44, 0x2E, 0x16,
    0x62, 0x43, 0x6C, 0x63, 0x25, 0x42, 0xDE, 0x8F,
    0xEC, 0x1A, 0x8D, 0x9A, 0xD8, 0x8C, 0xA5, 0x61,
    0x1E, 0x91, 0x1F, 0x5E, 0x89, 0xAD, 0x71, 0x1C,
    0xF0, 0x41, 0xFB, 0x00, 0x30, 0x8C, 0xD1, 0x54,
    0x45, 0x37, 0xE2, 0xCC, 0xA9, 0xC5, 0xD3, 0x7B]"

definition favicon_0512 :: "8 word list" where
  "favicon_0512 = [
    0x2B, 0x7A, 0x94, 0x07, 0x0B, 0x1B, 0x98, 0x8C,
    0x81, 0x09, 0x80, 0x1A, 0x42, 0x0B, 0x9B, 0x80,
    0xB9, 0x42, 0x72, 0xD2, 0xFC, 0x31, 0x86, 0xCB,
    0x0F, 0x60, 0xEE, 0x3F, 0x86, 0x98, 0x8D, 0xAF,
    0x63, 0x70, 0x1C, 0xA5, 0x1D, 0x0C, 0x03, 0xAD,
    0x00, 0xFC, 0x0C, 0x44, 0x31, 0xBF, 0x81, 0x9A,
    0xBC, 0x1D, 0x11, 0x9D, 0x0D, 0xEC, 0x52, 0x8F,
    0x61, 0xE8, 0x58, 0x01, 0xC9, 0x03, 0x80, 0x77,
    0x82, 0x8C, 0x5E, 0x05, 0xCE, 0xE7, 0xE1, 0xA8,
    0x1D, 0xE1, 0x75, 0x32, 0x8E, 0x16, 0xF3, 0x20,
    0xFC, 0xC9, 0xD3, 0x70, 0x44, 0x0E, 0xC1, 0xC3,
    0xF5, 0x40, 0xCF, 0xF6, 0x01, 0x60, 0x1F, 0x31,
    0x48, 0x31, 0x1C, 0xD4, 0xC7, 0x90, 0xCA, 0xD5,
    0xC0, 0x74, 0xC3, 0x3C, 0xC8, 0xBA, 0x07, 0xEC,
    0xDD, 0x41, 0xD4, 0x05, 0x19, 0x7D, 0x0B, 0x54,
    0x46, 0x42, 0x7D, 0x1F, 0xF0, 0xEE, 0x47, 0xE0]"

definition favicon_0640 :: "8 word list" where
  "favicon_0640 = [
    0x12, 0x3B, 0xD0, 0xD4, 0x07, 0xD1, 0x94, 0xCD,
    0x78, 0xC9, 0x0C, 0xB7, 0xF9, 0x1F, 0x00, 0xE8,
    0x00, 0x28, 0x20, 0xCC, 0xC0, 0x70, 0x00, 0xAE,
    0x07, 0x65, 0x14, 0x18, 0x33, 0x41, 0x38, 0x82,
    0x8C, 0x5E, 0x0F, 0xEA, 0xDB, 0x20, 0x66, 0xB6,
    0x46, 0xA7, 0x75, 0xD0, 0x35, 0x9E, 0x69, 0xB7,
    0x1D, 0x48, 0x09, 0x77, 0x02, 0xE1, 0xD6, 0x25,
    0x00, 0xE1, 0x4E, 0x20, 0xDC, 0xBA, 0x04, 0x20,
    0xDC, 0x09, 0x84, 0x5B, 0x97, 0x00, 0x84, 0x3B,
    0x81, 0x70, 0xEB, 0x12, 0x80, 0x70, 0x27, 0x10,
    0x6E, 0x5D, 0x02, 0x10, 0xEE, 0x04, 0xC2, 0xAD,
    0x4B, 0x00, 0xC2, 0x9D, 0x40, 0xB8, 0xF5, 0xF3,
    0x6F, 0x65, 0x12, 0x68, 0x06, 0x6A, 0x4F, 0x7F,
    0x82, 0x51, 0x2D, 0xE0, 0x00, 0x02, 0xE1, 0xB6,
    0xF9, 0xBF, 0x01, 0xE8, 0x40, 0x05, 0xC8, 0xB7,
    0x80, 0x69, 0x80, 0x94, 0x4B, 0xA1, 0xD9, 0x0D]"

definition favicon_0768 :: "8 word list" where
  "favicon_0768 = [
    0x35, 0x11, 0x20, 0xB6, 0x04, 0x19, 0xBD, 0x14,
    0x1C, 0x7F, 0x06, 0x6D, 0x1F, 0xD0, 0x1D, 0x80,
    0x06, 0x24, 0xDB, 0xD0, 0x39, 0x82, 0xC6, 0xEF,
    0xC3, 0x6D, 0xFE, 0xC7, 0x00, 0xEA, 0x40, 0x57,
    0xC0, 0x97, 0x05, 0x5A, 0x0A, 0x70, 0x2A, 0xB0,
    0x8D, 0xF8, 0xB2, 0x67, 0xE1, 0xE4, 0x8D, 0x20,
    0x66, 0x05, 0x19, 0x3D, 0x1B, 0x5C, 0xFF, 0x00,
    0xD7, 0x37, 0xC0, 0x34, 0x02, 0x48, 0x39, 0x97,
    0x80, 0x6F, 0x35, 0x5E, 0xED, 0x3A, 0x9A, 0x09,
    0x16, 0xEB, 0x2F, 0x02, 0x60, 0x3D, 0x78, 0x3A,
    0x21, 0xAB, 0x96, 0x40, 0xE3, 0x5E, 0x44, 0xEC,
    0x7B, 0x7A, 0xA9, 0xF8, 0x4B, 0x4D, 0x39, 0xA6,
    0xDA, 0xC7, 0x09, 0x7E, 0xFB, 0x42, 0x02, 0xB1,
    0x20, 0x6F, 0x41, 0xC7, 0xC3, 0x0C, 0x84, 0xAB,
    0x2F, 0xEA, 0xF1, 0x15, 0x28, 0xCE, 0x02, 0x3C,
    0x72, 0x60, 0xB8, 0xCD, 0xFF, 0x00, 0xC0, 0xC3]"

definition favicon_0896 :: "8 word list" where
  "favicon_0896 = [
    0x26, 0x34, 0x57, 0x37, 0x44, 0x71, 0x35, 0xA6,
    0x6D, 0xF7, 0x62, 0x88, 0x59, 0x48, 0x63, 0xDC,
    0x33, 0x4C, 0x54, 0xC6, 0x4A, 0xE8, 0x77, 0x9E,
    0xFB, 0x52, 0x69, 0xDD, 0x39, 0x4A, 0x07, 0xBC,
    0xC0, 0x66, 0xA0, 0x14, 0xF0, 0x9D, 0x73, 0x65,
    0x0E, 0x55, 0x1C, 0x90, 0x6F, 0x23, 0x5D, 0xDB,
    0x91, 0xA5, 0xF3, 0xD0, 0xBE, 0x2C, 0x44, 0xD6,
    0xBF, 0x4C, 0x0B, 0xD7, 0x84, 0xDB, 0xFC, 0x19,
    0x00, 0xC5, 0x7B, 0x69, 0xB0, 0x1B, 0x7C, 0x90,
    0x52, 0xFA, 0x1E, 0xF1, 0xEF, 0xB8, 0x30, 0x35,
    0x1C, 0x44, 0xCD, 0x76, 0xA1, 0x5B, 0x4B, 0xD0,
    0xC4, 0x74, 0xCE, 0xAE, 0x20, 0xD9, 0xC1, 0xF2,
    0x34, 0xA4, 0x4E, 0x81, 0xA8, 0x00, 0x68, 0x0F,
    0x41, 0xF5, 0x48, 0x68, 0xC8, 0x03, 0xBD, 0xFC,
    0xDC, 0x26, 0x64, 0x6F, 0x34, 0xCF, 0x57, 0xF8,
    0xCB, 0xE3, 0x09, 0x14, 0xED, 0xC2, 0xBB, 0xB9]"

definition favicon_1024 :: "8 word list" where
  "favicon_1024 = [
    0x9A, 0x66, 0xD7, 0x29, 0xB9, 0x91, 0x4D, 0x0C,
    0x08, 0xB7, 0xFD, 0x1F, 0x75, 0x6E, 0xD9, 0x24,
    0x75, 0xD1, 0xA3, 0x69, 0x03, 0xF2, 0x8B, 0x5B,
    0x31, 0x1E, 0xCC, 0xC6, 0x62, 0xBB, 0x1F, 0x77,
    0xD4, 0xAB, 0x68, 0xC2, 0x7C, 0x36, 0x00, 0xB1,
    0x18, 0x32, 0xDE, 0x83, 0xBB, 0x6F, 0x86, 0xEC,
    0x27, 0xA1, 0xE5, 0x5E, 0x58, 0xB5, 0x00, 0xD6,
    0x55, 0x81, 0xFB, 0xE6, 0x73, 0xFD, 0x93, 0x8C,
    0xDF, 0xF3, 0x06, 0x4D, 0xA7, 0x4A, 0x71, 0x1F,
    0x3F, 0x82, 0xB7, 0x31, 0x80, 0xA6, 0x7F, 0x52,
    0x32, 0xA0, 0x7D, 0xCC, 0x0D, 0x67, 0xD7, 0x06,
    0x47, 0xA0, 0x52, 0xCE, 0x38, 0xB2, 0xC4, 0x0C,
    0xA2, 0xD5, 0x35, 0x54, 0x8B, 0x47, 0x71, 0x8A,
    0xFC, 0x9F, 0xDC, 0x72, 0x19, 0xE4, 0x74, 0x87,
    0xA7, 0x47, 0xC3, 0xD0, 0x58, 0x68, 0x7A, 0x0D,
    0x9E, 0xB2, 0xC3, 0xA2, 0xE5, 0xD0, 0x5C, 0x7D]"

definition favicon_1152 :: "8 word list" where
  "favicon_1152 = [
    0x1E, 0x00, 0x87, 0x69, 0x92, 0x8D, 0x94, 0x6B,
    0x85, 0xF2, 0x88, 0xDE, 0x95, 0x6D, 0xCC, 0x2A,
    0xB9, 0xA9, 0xFD, 0x14, 0x49, 0xCF, 0x1A, 0xDE,
    0x8A, 0xD7, 0xA3, 0x01, 0x2B, 0xEC, 0x7F, 0x92,
    0x1F, 0x51, 0x13, 0x30, 0xD2, 0xC4, 0xF3, 0x38,
    0x7F, 0x5A, 0x41, 0x16, 0xCD, 0xE0, 0x1B, 0x0C,
    0x5A, 0x02, 0xB0, 0x1A, 0xE4, 0x97, 0xE0, 0xAF,
    0x02, 0xDF, 0xE7, 0xE0, 0x3B, 0x77, 0x61, 0xA5,
    0x03, 0x2E, 0x54, 0xB9, 0x85, 0xF9, 0x25, 0xE9,
    0xA7, 0xF7, 0x9F, 0xDB, 0x91, 0xCE, 0x3B, 0xBE,
    0x17, 0x3F, 0x84, 0xA4, 0x75, 0x40, 0x3B, 0x67,
    0x50, 0xCB, 0xF5, 0xC9, 0x34, 0xD1, 0x50, 0x35,
    0x56, 0x0C, 0xFC, 0x3A, 0x95, 0xF8, 0xEC, 0x02,
    0x22, 0x2B, 0xD6, 0x13, 0x57, 0xF2, 0x00, 0x29,
    0x1E, 0x43, 0xF1, 0x9B, 0x2C, 0xFB, 0xD9, 0x96,
    0x06, 0x85, 0xDB, 0xEA, 0xF9, 0xD5, 0xE6, 0xA5]"

definition favicon_1280 :: "8 word list" where
  "favicon_1280 = [
    0xB0, 0xF8, 0x9C, 0x72, 0x91, 0xEB, 0x7E, 0x8E,
    0xE8, 0xEF, 0xCA, 0x50, 0x6B, 0x0A, 0x31, 0x57,
    0x2E, 0x26, 0xB5, 0x7A, 0x0A, 0xB9, 0x7A, 0x75,
    0x5B, 0x63, 0xB5, 0x07, 0xB5, 0x79, 0x86, 0x17,
    0xD7, 0x32, 0x1B, 0x5B, 0xB2, 0x8E, 0xCC, 0xB7,
    0xA0, 0x77, 0x59, 0x8B, 0xDB, 0x34, 0x9F, 0x93,
    0xD9, 0x9F, 0xC0, 0x91, 0x6F, 0xC1, 0x3B, 0x26,
    0xD4, 0x84, 0xF2, 0x5A, 0xB0, 0x8A, 0x6C, 0xD6,
    0xE1, 0x53, 0x3F, 0xC3, 0xA7, 0xAE, 0x23, 0x55,
    0xE8, 0x18, 0x30, 0x87, 0xE0, 0x50, 0x23, 0x46,
    0xBE, 0x8B, 0x57, 0x66, 0x50, 0xAE, 0x29, 0xF2,
    0x4B, 0x3D, 0x9F, 0xA5, 0x7C, 0x56, 0xF2, 0x30,
    0x5A, 0x50, 0x00, 0xE8, 0x29, 0xA6, 0xA3, 0xC6,
    0xB4, 0xA0, 0xA4, 0x79, 0x21, 0x72, 0x22, 0xBE,
    0xC4, 0x5B, 0xA8, 0xB6, 0xBD, 0x49, 0xAD, 0x61,
    0x52, 0xEB, 0x92, 0x20, 0x78, 0xD9, 0xED, 0xA8]"

definition favicon_1408 :: "8 word list" where
  "favicon_1408 = [
    0xE4, 0x2A, 0x23, 0x50, 0x62, 0xAF, 0x26, 0x32,
    0xFD, 0x63, 0x8C, 0x29, 0xC7, 0x51, 0xCC, 0x45,
    0x40, 0x56, 0xD0, 0x41, 0x75, 0xAA, 0xF1, 0x68,
    0x0D, 0xF8, 0x9D, 0x23, 0xB1, 0x1C, 0xF3, 0x88,
    0xCC, 0x13, 0x0B, 0xE4, 0x11, 0xEF, 0x9E, 0xBC,
    0xCB, 0x18, 0x5B, 0x72, 0x23, 0xB2, 0xED, 0x00,
    0x4C, 0xC4, 0x81, 0xB8, 0x17, 0x94, 0xB7, 0x80,
    0x9B, 0x90, 0xA2, 0x1F, 0x9A, 0x7A, 0x3B, 0x9A,
    0x38, 0x19, 0x8A, 0xF9, 0x3C, 0x89, 0x85, 0xC9,
    0x8A, 0xC2, 0x89, 0xB4, 0x3A, 0x6A, 0x46, 0xDD,
    0x89, 0x7F, 0xC4, 0x32, 0x4C, 0x69, 0xB7, 0x22,
    0xCC, 0x59, 0xC0, 0x15, 0x41, 0x07, 0x96, 0xD4,
    0xE0, 0xD5, 0x1F, 0x41, 0x77, 0xAC, 0xC3, 0xB2,
    0x3B, 0x8D, 0x8E, 0xAB, 0xF6, 0x89, 0xCC, 0xE2,
    0x06, 0x59, 0xE5, 0xFA, 0x1D, 0xB0, 0xB0, 0xED,
    0x00, 0x04, 0x01, 0x24, 0x0B, 0x41, 0xCE, 0x02]"

definition favicon_1536 :: "8 word list" where
  "favicon_1536 = [
    0xEA, 0x80, 0xE5, 0x48, 0x79, 0x15, 0x3A, 0xFB,
    0x43, 0x01, 0x20, 0x3A, 0x30, 0x8F, 0xCE, 0xD1,
    0x39, 0x44, 0x5D, 0x15, 0x83, 0x52, 0x38, 0x09,
    0x35, 0xEB, 0x6E, 0x94, 0x88, 0x06, 0x84, 0xC8,
    0xA3, 0xB5, 0x9E, 0x18, 0x2C, 0x80, 0x28, 0x34,
    0x32, 0x40, 0x33, 0x62, 0xCC, 0x2E, 0x24, 0x3A,
    0x7E, 0x37, 0x11, 0x0D, 0x43, 0xC4, 0xC0, 0x7D,
    0xAB, 0xED, 0xF9, 0x9A, 0xB1, 0xED, 0x00, 0xA2,
    0xE5, 0x52, 0x9C, 0x6E, 0xD0, 0x9C, 0xD7, 0xA1,
    0xEA, 0x49, 0xE8, 0x9E, 0x15, 0x34, 0x3B, 0xB6,
    0xD2, 0xA8, 0x0D, 0x02, 0xB6, 0x06, 0x9D, 0x68,
    0x4F, 0xC5, 0x80, 0xCF, 0x16, 0x8D, 0xA7, 0x60,
    0x06, 0x7A, 0xAF, 0x25, 0x10, 0xF5, 0x3A, 0x82,
    0xA9, 0x5C, 0x98, 0x3D, 0x8B, 0xFE, 0xA0, 0xD4,
    0xA1, 0x74, 0x88, 0xC0, 0x3C, 0xEC, 0xAF, 0x18,
    0x36, 0x26, 0xD0, 0x5C, 0xBE, 0x42, 0xAE, 0x74]"

definition favicon_1664 :: "8 word list" where
  "favicon_1664 = [
    0xDF, 0xD0, 0x76, 0x00, 0xC9, 0x14, 0x52, 0x71,
    0xEA, 0x18, 0x11, 0x9F, 0x3B, 0xB1, 0x64, 0xBD,
    0x89, 0x7F, 0xEF, 0xB3, 0x38, 0x4A, 0xAA, 0x64,
    0x95, 0xAF, 0x32, 0x84, 0xDF, 0x09, 0x9A, 0x15,
    0x37, 0x22, 0x61, 0x1A, 0x74, 0x7C, 0x02, 0x2C,
    0xFD, 0x81, 0x2A, 0x71, 0x39, 0x8A, 0x79, 0x2F,
    0x88, 0x19, 0x04, 0xDD, 0x07, 0xE4, 0x6F, 0x21,
    0xD0, 0x00, 0x81, 0xB5, 0x24, 0xF2, 0x92, 0xE2,
    0x41, 0x24, 0xF5, 0x40, 0xD8, 0x66, 0x63, 0x32,
    0x3D, 0x28, 0xFA, 0xB9, 0x2F, 0x6B, 0x33, 0x00,
    0x39, 0x07, 0x21, 0x7E, 0x23, 0x3A, 0x60, 0x32,
    0x5A, 0x09, 0x28, 0x13, 0x91, 0x86, 0x9D, 0xC4,
    0xA8, 0x8F, 0x89, 0xBE, 0x58, 0x81, 0x3D, 0xC1,
    0x13, 0x10, 0x4B, 0xC0, 0xB8, 0x1B, 0x4C, 0x43,
    0x41, 0xC4, 0x01, 0x06, 0xA3, 0x03, 0xBA, 0x16,
    0x80, 0x69, 0x34, 0x88, 0xE4, 0xE0, 0xA2, 0x06]"

definition favicon_1792 :: "8 word list" where
  "favicon_1792 = [
    0x76, 0x42, 0xDD, 0xAD, 0x50, 0x3D, 0x01, 0x74,
    0x88, 0x00, 0x55, 0x41, 0x35, 0xCD, 0x24, 0x52,
    0x11, 0xA4, 0x93, 0xD0, 0xF6, 0x69, 0x70, 0x1C,
    0x4B, 0xE8, 0x94, 0xBA, 0x09, 0xB5, 0xE0, 0x1E,
    0xD4, 0xF4, 0xE1, 0x10, 0x35, 0x19, 0xF2, 0x5E,
    0x84, 0x6F, 0xFB, 0x43, 0x4B, 0x08, 0xFE, 0x51,
    0x81, 0x64, 0x5A, 0x83, 0xB4, 0xAE, 0x18, 0xFF,
    0x0E, 0x86, 0x3B, 0xC1, 0x38, 0x09, 0x82, 0xDE,
    0x3E, 0xE9, 0x08, 0xCA, 0x68, 0x60, 0x30, 0xF0,
    0x21, 0x00, 0x66, 0xA0, 0x33, 0xD0, 0x80, 0x08,
    0x66, 0x1A, 0xB4, 0x8A, 0x91, 0x60, 0x8E, 0x82,
    0xC8, 0xF7, 0x41, 0x71, 0x83, 0xC9, 0x02, 0xD1,
    0x1F, 0x80, 0x92, 0x03, 0xAC, 0x0F, 0x9E, 0x40,
    0x78, 0x14, 0xCC, 0x00, 0xA3, 0x02, 0x63, 0x41,
    0x14, 0x02, 0x31, 0xC0, 0x60, 0x10, 0xCF, 0xD2,
    0x4A, 0xF5, 0xFF, 0x4E, 0x6D, 0xEF, 0x01, 0x4E]"

definition favicon_1920 :: "8 word list" where
  "favicon_1920 = [
    0xEA, 0x30, 0xEB, 0x83, 0x31, 0x68, 0x02, 0x85,
    0xD7, 0x40, 0x6E, 0x80, 0x40, 0x25, 0x52, 0x96,
    0x02, 0x8B, 0xC2, 0x6D, 0xA8, 0xAD, 0x6A, 0x7B,
    0x0F, 0x28, 0x97, 0xB3, 0x71, 0x39, 0x52, 0xD0,
    0x0F, 0xC5, 0x42, 0xF3, 0x24, 0x94, 0x53, 0xA5,
    0x58, 0x8E, 0x5D, 0x8E, 0x1A, 0x78, 0x2A, 0xDC,
    0x66, 0x2E, 0x0A, 0x00, 0xB9, 0x96, 0x39, 0xA8,
    0xB5, 0x57, 0x20, 0xBE, 0xDA, 0x85, 0x7A, 0xD4,
    0x8F, 0xB2, 0xEB, 0x04, 0x91, 0x7B, 0x5F, 0x20,
    0xC2, 0xBF, 0x2F, 0xDC, 0x66, 0x82, 0x51, 0xDB,
    0x67, 0x81, 0xDB, 0x19, 0x87, 0x2D, 0x46, 0x41,
    0xCD, 0xEA, 0x86, 0x9E, 0x3A, 0x15, 0x49, 0x3C,
    0xDF, 0x8D, 0x9F, 0x4E, 0xF5, 0x96, 0x21, 0xF6,
    0xEC, 0x43, 0x5D, 0x88, 0x48, 0xCC, 0x41, 0xEF,
    0xB2, 0x0D, 0xCC, 0x5E, 0x24, 0x3A, 0x75, 0x9E,
    0x7E, 0x38, 0x0E, 0x3F, 0x4C, 0x4E, 0xFD, 0x08]"

definition favicon_2048 :: "8 word list" where
  "favicon_2048 = [
    0x7C, 0x5D, 0x16, 0xE1, 0xED, 0xB0, 0x16, 0xD4,
    0xE5, 0x18, 0xA9, 0x23, 0xDD, 0x5B, 0x81, 0x6B,
    0xFB, 0x1D, 0x1C, 0x89, 0x18, 0x85, 0xF1, 0x8A,
    0x7C, 0xD4, 0xBE, 0x8B, 0x09, 0x24, 0xAF, 0x40,
    0x13, 0xA6, 0x8B, 0x75, 0x86, 0xB2, 0xED, 0x63,
    0x40, 0xBA, 0x78, 0x1B, 0x91, 0x34, 0x14, 0xB2,
    0x1E, 0x40, 0xC6, 0x3F, 0x07, 0x89, 0xF7, 0x63,
    0x7D, 0x7C, 0x28, 0xD6, 0x8A, 0xBB, 0x30, 0xEC,
    0x9C, 0x88, 0xDE, 0x6D, 0x3B, 0xF4, 0x7A, 0x1C,
    0x4C, 0x1B, 0x11, 0x48, 0xE2, 0x7D, 0xA5, 0xC4,
    0xEF, 0x8F, 0xC2, 0x5F, 0x2E, 0xD1, 0x07, 0xDC,
    0x07, 0x9D, 0xEA, 0x40, 0x4C, 0x20, 0x80, 0x8F,
    0xC3, 0x5A, 0x26, 0x96, 0x95, 0x99, 0x44, 0x9A,
    0xD7, 0xE0, 0x1F, 0x3E, 0x98, 0x40, 0xCC, 0x5C,
    0x88, 0x3C, 0x88, 0x54, 0x3E, 0xBC, 0x38, 0xF6,
    0x83, 0x01, 0x10, 0x25, 0xF7, 0xE2, 0xF3, 0x97]"

definition favicon_2176 :: "8 word list" where
  "favicon_2176 = [
    0xA1, 0xB5, 0xBC, 0x8A, 0xF4, 0xFF, 0x0B, 0xCC,
    0x4D, 0x28, 0xD6, 0xF1, 0xE8, 0x19, 0xCB, 0x70,
    0x5B, 0x1F, 0x44, 0x8D, 0x4B, 0xC1, 0x90, 0x30,
    0x1F, 0xC4, 0x8B, 0x00, 0xA8, 0xF2, 0x45, 0x84,
    0x51, 0x47, 0xDA, 0xE2, 0xD0, 0xD2, 0x56, 0x43,
    0xE4, 0x1D, 0x80, 0x44, 0xA2, 0x12, 0xE0, 0x19,
    0x5C, 0xC3, 0x46, 0xA1, 0x8B, 0x15, 0xD0, 0x71,
    0x12, 0x52, 0xE9, 0x0D, 0x62, 0x22, 0x30, 0xA2,
    0xFD, 0x02, 0xC8, 0x67, 0x0A, 0x3B, 0xAB, 0xF7,
    0xE0, 0x58, 0xDF, 0x19, 0x3D, 0x46, 0x23, 0x10,
    0x97, 0x80, 0xA6, 0x47, 0xE1, 0x3B, 0x1A, 0x8F,
    0x7F, 0xEF, 0xA7, 0xA8, 0xE9, 0x9D, 0x51, 0x7A,
    0xBC, 0x8F, 0x62, 0xEA, 0x03, 0x08, 0x84, 0x2F,
    0x19, 0xF7, 0x81, 0x41, 0xA8, 0x87, 0xBF, 0x81,
    0xDC, 0x24, 0xA4, 0xED, 0x55, 0x84, 0xD8, 0x8D,
    0xE0, 0x24, 0x22, 0x30, 0x91, 0xB8, 0xA2, 0x12]"

definition favicon_2304 :: "8 word list" where
  "favicon_2304 = [
    0xEA, 0xCC, 0x37, 0xC0, 0xE0, 0x27, 0x91, 0x29,
    0xAF, 0x80, 0x2D, 0x17, 0xC5, 0x9A, 0x0F, 0xEC,
    0x68, 0x97, 0x00, 0xC4, 0x1E, 0x36, 0xC8, 0xD8,
    0xFA, 0x97, 0xF0, 0x2C, 0xB9, 0x01, 0xC3, 0xCE,
    0x24, 0x1C, 0xD6, 0x1D, 0xB8, 0xF4, 0x2B, 0x71,
    0xD4, 0xBE, 0x42, 0xE0, 0xC4, 0xCB, 0x18, 0xE2,
    0xF6, 0x60, 0xB0, 0xCD, 0xC5, 0x64, 0x7A, 0x06,
    0x81, 0xC0, 0xEC, 0x7D, 0x81, 0x13, 0x55, 0x1E,
    0x1A, 0x1D, 0xD7, 0x90, 0xD4, 0x69, 0x0E, 0x22,
    0xE1, 0x20, 0xAA, 0x3A, 0x06, 0x85, 0x72, 0x4C,
    0x3E, 0x41, 0xD6, 0x9E, 0x25, 0x6C, 0x35, 0x3F,
    0x81, 0xA7, 0x28, 0x17, 0xAD, 0x6F, 0x3D, 0x86,
    0x09, 0xDF, 0x42, 0xB6, 0xF7, 0x62, 0xD5, 0x6D,
    0xDB, 0x0C, 0x60, 0xC7, 0x4A, 0x34, 0xFB, 0x78,
    0xFD, 0x11, 0xF4, 0x1A, 0x23, 0x5D, 0xEB, 0xFA,
    0xB0, 0x5F, 0x19, 0x41, 0x83, 0x5C, 0x2B, 0x2B]"

definition favicon_2432 :: "8 word list" where
  "favicon_2432 = [
    0xE4, 0x6D, 0x44, 0xEA, 0xEF, 0xD2, 0x58, 0x5D,
    0x27, 0xFA, 0x97, 0x77, 0xC6, 0x24, 0x8A, 0x10,
    0x40, 0x47, 0xF9, 0x09, 0x7E, 0x5D, 0xCA, 0xAF,
    0x65, 0xBE, 0xC8, 0xA8, 0xE9, 0x80, 0x59, 0xD4,
    0x63, 0x11, 0x0D, 0x98, 0xB0, 0x92, 0x24, 0xBB,
    0xD2, 0x45, 0x5B, 0xCB, 0x1A, 0x8A, 0x30, 0xD7,
    0xE6, 0x61, 0x54, 0xA2, 0x51, 0xC6, 0x56, 0x5E,
    0xCC, 0x53, 0xE4, 0x41, 0x15, 0xBD, 0x8A, 0x3F,
    0xC2, 0x05, 0x4C, 0xE1, 0x0B, 0x9D, 0xD3, 0xCB,
    0xF6, 0x02, 0xA2, 0x00, 0xF8, 0x63, 0x6B, 0xF2,
    0xDA, 0x0F, 0x17, 0x6F, 0x67, 0x01, 0x00, 0x82,
    0x7F, 0x9E, 0xBE, 0xB6, 0xEF, 0x8F, 0x42, 0x35,
    0xB0, 0x82, 0x9D, 0xC0, 0x7C, 0xBB, 0x5D, 0x1B,
    0x0A, 0xDA, 0x51, 0x90, 0x3F, 0xBC, 0x0B, 0x5C,
    0x04, 0xFD, 0xEA, 0xCF, 0x07, 0xFC, 0xEA, 0x01,
    0xB4, 0x9B, 0x63, 0xEB, 0x48, 0x02, 0x08, 0xBE]"

definition favicon_2560 :: "8 word list" where
  "favicon_2560 = [
    0x7F, 0x04, 0x3A, 0x00, 0x30, 0x19, 0x02, 0x36,
    0x50, 0xE6, 0xD0, 0xFA, 0xA2, 0x1C, 0x84, 0xB4,
    0x12, 0xD0, 0x3F, 0x00, 0xE2, 0xCF, 0x7C, 0xD5,
    0x02, 0x94, 0x21, 0x31, 0xA3, 0x07, 0xB3, 0x29,
    0xFA, 0x4B, 0xC9, 0x2D, 0x17, 0x61, 0xD4, 0x66,
    0xA3, 0xEA, 0xE9, 0x28, 0xF2, 0x51, 0x40, 0xD7,
    0xF6, 0xA1, 0xD4, 0xAC, 0x02, 0xC3, 0x78, 0x20,
    0x3A, 0xB8, 0xB0, 0xFA, 0x64, 0x68, 0xF9, 0x14,
    0xE4, 0x74, 0x00, 0x02, 0xA0, 0xDF, 0x8D, 0x3F,
    0x90, 0x87, 0x5B, 0xCE, 0xE2, 0x14, 0x2D, 0xED,
    0x07, 0xC0, 0x29, 0x79, 0x17, 0xD6, 0xA6, 0x79,
    0x44, 0xD7, 0x2F, 0xC3, 0xE4, 0xCF, 0x44, 0x31,
    0x94, 0x6A, 0xA3, 0xC9, 0xA9, 0xFF, 0x37, 0xAD,
    0x1B, 0x19, 0xC1, 0x3E, 0xAC, 0x87, 0x80, 0x5E,
    0x20, 0xAF, 0x46, 0x07, 0x06, 0xA1, 0x3B, 0xFB,
    0xE3, 0xAB, 0x2B, 0xA1, 0xC6, 0xDF, 0x47, 0xAE]"

definition favicon_2688 :: "8 word list" where
  "favicon_2688 = [
    0xA2, 0x48, 0x04, 0x19, 0xF6, 0x82, 0x2B, 0x4F,
    0x17, 0x36, 0x91, 0x9A, 0xDC, 0x9D, 0xF8, 0xBB,
    0x9E, 0xC4, 0x72, 0xCF, 0x64, 0xD4, 0xAE, 0xBB,
    0xC0, 0x50, 0x05, 0x64, 0x5C, 0x80, 0xF0, 0x5E,
    0x20, 0x0E, 0x9C, 0x95, 0x68, 0x1B, 0xBF, 0x20,
    0x30, 0xB7, 0x07, 0x2D, 0x5F, 0xA7, 0xC9, 0xDD,
    0x81, 0xAE, 0xED, 0xA6, 0x07, 0x88, 0x28, 0x09,
    0x96, 0xFA, 0x44, 0x28, 0x6A, 0x44, 0x89, 0x4B,
    0x46, 0x19, 0x35, 0x15, 0xC5, 0x76, 0x1F, 0x01,
    0xD3, 0xDF, 0x80, 0x4E, 0x21, 0x84, 0x76, 0xA2,
    0xEB, 0xE9, 0x68, 0x4E, 0x23, 0x86, 0xDD, 0x11,
    0x28, 0x4B, 0xE2, 0x10, 0x65, 0x85, 0x24, 0x05,
    0x16, 0x8B, 0xF9, 0xB8, 0xDB, 0x4F, 0x0F, 0x18,
    0x86, 0x60, 0x25, 0xD7, 0x8A, 0xFE, 0x66, 0x3F,
    0x56, 0xDB, 0x95, 0x98, 0x7B, 0xC5, 0x61, 0xB4,
    0x6D, 0xC7, 0x69, 0xCE, 0x47, 0x9E, 0x3E, 0x62]"

definition favicon_2816 :: "8 word list" where
  "favicon_2816 = [
    0x15, 0x9C, 0xEA, 0xF1, 0xEB, 0xB3, 0x69, 0x6E,
    0x9C, 0x43, 0x54, 0xC5, 0x71, 0xA2, 0xCA, 0x17,
    0xE3, 0x6D, 0x9C, 0x4C, 0xA3, 0x3E, 0xB3, 0xB8,
    0x12, 0x47, 0xBB, 0x01, 0xF0, 0xBD, 0xEC, 0xDD,
    0xE9, 0x4D, 0xA2, 0x98, 0x47, 0xA2, 0xB1, 0x14,
    0x83, 0xE1, 0x0F, 0x9C, 0x50, 0xA6, 0xA1, 0x85,
    0x50, 0x1B, 0x04, 0x8D, 0x16, 0x39, 0x8B, 0x2A,
    0xBD, 0x23, 0xF1, 0x3E, 0x17, 0x3D, 0xB5, 0x4F,
    0x31, 0x73, 0x47, 0xF1, 0x47, 0x38, 0xE1, 0x67,
    0xFE, 0x3D, 0x1E, 0x6E, 0xD9, 0xFB, 0xA2, 0xD0,
    0x93, 0x68, 0x34, 0xAC, 0x7C, 0x87, 0x31, 0xA4,
    0xB3, 0x24, 0x12, 0x68, 0x42, 0xCA, 0x32, 0x5A,
    0x44, 0x34, 0x4D, 0xC5, 0x9E, 0xB3, 0x0B, 0x98,
    0xFF, 0x01, 0xCE, 0x3E, 0x07, 0xC4, 0x48, 0x1D,
    0x56, 0x52, 0x00, 0x00, 0x00, 0x00, 0x49, 0x45,
    0x4E, 0x44, 0xAE, 0x42, 0x60, 0x82]"

definition favicon :: "8 word list" where
  "favicon =
    favicon_0000 @ favicon_0128 @ favicon_0256 @ favicon_0384 @
    favicon_0512 @ favicon_0640 @ favicon_0768 @ favicon_0896 @
    favicon_1024 @ favicon_1152 @ favicon_1280 @ favicon_1408 @
    favicon_1536 @ favicon_1664 @ favicon_1792 @ favicon_1920 @
    favicon_2048 @ favicon_2176 @ favicon_2304 @ favicon_2432 @
    favicon_2560 @ favicon_2688 @ favicon_2816"

subsection \<open>serveFrom and the request handler\<close>

text \<open>
  An \<^verbatim>\<open>http.HandlerFunc\<close> takes the writer and the request; the logger \<^verbatim>\<open>trace\<close> is a
  package variable, so the error stream is passed in and returned.
\<close>

type_synonym HandlerFunc =
  "ResponseWriter \<Rightarrow> Request \<Rightarrow> entry list \<Rightarrow> ResponseWriter \<times> entry list"

text \<open>
  The function literal that \<^verbatim>\<open>serveFrom\<close> returns. It closes over \<open>root\<close> (through
  \<^verbatim>\<open>server\<close>) and reads the package variable \<^verbatim>\<open>faviconTS\<close>, which is set once, by
  \<^verbatim>\<open>time.Now()\<close>, when the program is loaded.
\<close>

definition handler :: "stdlib \<Rightarrow> Time \<Rightarrow> string \<Rightarrow> HandlerFunc" where
  "handler lib faviconTS root resp req stderr =
     (let resp1 = SetHeader resp ''Server'' ''web-share'' in
      case url_QueryUnescape lib (RequestURI req) of
        Inl err \<Rightarrow>
          (http_Error resp1 ''Invalid URI'' StatusBadRequest,
           stderr @ [Println [RemoteAddr req, ''Invalid URI:'', err]])
      | Inr uri \<Rightarrow>
          let rng = Header_Get (Header req) ''Range'';
              stderr1 =
                (if length rng > 0 \<and> rng \<noteq> ''bytes=0-''
                 then stderr @ [Println [RemoteAddr req, Method req, shortenURI uri, rng]]
                 else stderr @ [Println [RemoteAddr req, Method req, shortenURI uri]])
          in if uri = ''/favicon.ico''
             then (http_ServeContent lib (SetHeader resp1 ''Content-Type'' ''image/x-icon'')
                     req (URL_Path req) faviconTS favicon,
                   stderr1)
             else (let resp2 = SetHeader resp1 ''Cache-Control'' ''no-cache, no-store, must-revalidate'';
                       resp3 = SetHeader resp2 ''Pragma'' ''no-cache'';
                       resp4 = SetHeader resp3 ''Expires'' ''0''
                   in (http_FileServer lib root resp4 req, stderr1)))"

text \<open>
  \<^verbatim>\<open>serveFrom(dir)\<close>: \<^verbatim>\<open>absPath\<close> may end the process; otherwise the root is logged
  and the handler is returned.
\<close>

definition serveFrom :: "host \<Rightarrow> stdlib \<Rightarrow> Time \<Rightarrow> string \<Rightarrow> exit + (entry list \<times> HandlerFunc)" where
  "serveFrom h lib faviconTS dir =
     (case absPath h dir of
        Inl e \<Rightarrow> Inl e
      | Inr root \<Rightarrow> Inr ([Println [''Serving files from'', root]], handler lib faviconTS root))"

subsection \<open>main\<close>

text \<open>
  The three command-line values after \<^verbatim>\<open>gnuflag.Parse\<close>: \<^verbatim>\<open>itf\<close> and \<^verbatim>\<open>dir\<close> are
  strings, \<^verbatim>\<open>port\<close> is a \<^verbatim>\<open>uint\<close>.
\<close>

record flags =
  itf :: string
  port :: uint
  dir :: string

text \<open>
  How \<^verbatim>\<open>main\<close> ends: the process exits with a status, or
  \<^verbatim>\<open>srv.ListenAndServe()\<close> is serving on an address with a handler. The first
  component of the result of \<open>main\<close> is what has been written to the error stream.
  \<^verbatim>\<open>run\<close> builds the \<^verbatim>\<open>http.Server\<close> (address, handler, one-hour timeouts, a
  header limit, a callback that logs closed connections) and calls
  \<^verbatim>\<open>ListenAndServe\<close>; the address and the handler are what the model keeps of it.
  When \<^verbatim>\<open>ListenAndServe\<close> returns, \<^verbatim>\<open>trace.Fatalln(err)\<close> prints the error and exits
  with status 1. The arguments of \<^verbatim>\<open>run(addr, serveFrom(dir))\<close> are evaluated before
  the call, so \<^verbatim>\<open>serveFrom\<close> runs first.
\<close>

datatype final = Exited nat | Serving string HandlerFunc

definition terminate :: "entry list \<Rightarrow> exit \<Rightarrow> entry list \<times> final" where
  "terminate stderr e = (case e of Exit text code \<Rightarrow> (stderr @ [WriteString text], Exited code))"

definition main :: "host \<Rightarrow> stdlib \<Rightarrow> Time \<Rightarrow> flags \<Rightarrow> entry list \<times> final" where
  "main h lib faviconTS fl =
     (if port fl = 0 \<or> port fl > 0xFFFF
      then terminate [] (die (''Invalid port number: '' @ uintToString (port fl)) None)
      else if length (itf fl) = 0
      then terminate [] (die ''Network interface is not specified'' None)
      else (case findIP h (itf fl) of
              Inl e \<Rightarrow> terminate [] e
            | Inr a \<Rightarrow>
                if length a = 0
                then terminate [] (die (''Cannot find IPv4 address of '' @ itf fl) None)
                else (let addr = a @ '':'' @ uintToString (port fl);
                          stderr1 = [Println [''Listening on'', addr]]
                      in case serveFrom h lib faviconTS (dir fl) of
                           Inl e \<Rightarrow> terminate stderr1 e
                         | Inr (tr, hf) \<Rightarrow>
                             (case ListenAndServe h addr of
                                Some err \<Rightarrow> (stderr1 @ tr @ [Println [err]], Exited 1)
                              | None \<Rightarrow> (stderr1 @ tr, Serving addr hf)))))"

text \<open>
  \<^verbatim>\<open>main\<close> from its first statement. The three flags are declared with their defaults
  (\<^verbatim>\<open>""\<close>, \<^verbatim>\<open>defaultPort\<close>, \<^verbatim>\<open>"."\<close>) and \<^verbatim>\<open>gnuflag.Parse(false)\<close> reads the command
  line. The parser is the package \<^verbatim>\<open>github.com/juju/gnuflag\<close>, a parameter here: given
  the defaults and the arguments it returns the flags, or it ends the process itself,
  with a message and a status of its own, when the command line is not well formed (a
  port that is not a \<^verbatim>\<open>uint\<close>, say). \<open>main\<close> above is the rest of the function, from
  the validation of the port on.
\<close>

definition defaultPort :: uint where
  "defaultPort = 8080"

definition main_Parse ::
  "(flags \<Rightarrow> string list \<Rightarrow> exit + flags) \<Rightarrow> host \<Rightarrow> stdlib \<Rightarrow> Time \<Rightarrow> string list
     \<Rightarrow> entry list \<times> final" where
  "main_Parse gnuflag_Parse h lib faviconTS args =
     (case gnuflag_Parse \<lparr>itf = [], port = defaultPort, dir = ''.''\<rparr> args of
        Inl e \<Rightarrow> terminate [] e
      | Inr fl \<Rightarrow> main h lib faviconTS fl)"

subsection \<open>run: what the server does with the handler\<close>

text \<open>
  The \<^verbatim>\<open>ConnState\<close> callback that \<^verbatim>\<open>run\<close> installs: when a connection reaches
  \<^verbatim>\<open>http.StateClosed\<close> it logs the remote address of the connection and \<^verbatim>\<open>Closed\<close>;
  for every other state it does nothing.
\<close>

datatype ConnState = StateNew | StateActive | StateIdle | StateHijacked | StateClosed


text \<open>
  What happens at the server of \<^verbatim>\<open>net/http\<close>, one event after the other: a request
  arrives that the server could parse; a request line arrives that it could not parse
  (a bad escape in the path, say); a connection changes its state.
\<close>

datatype event = Request Request | Unparsed | StateChange string ConnState



subsection \<open>A library and a host for the examples\<close>

text \<open>
  The examples below run the program against a small stand-in for the library and the
  machine. The \<^verbatim>\<open>QueryUnescape\<close> of \<open>exampleLib\<close> decodes as \<^verbatim>\<open>net/url\<close> does: it
  refuses a \<^verbatim>\<open>%\<close> that is not followed by two hexadecimal digits, and otherwise
  replaces every \<^verbatim>\<open>%XX\<close> by the byte and every \<^verbatim>\<open>+\<close> by a space. Its error text
  quotes the offending escape as the library does when the escape is printable ASCII
  without quote and backslash. Its
  \<^verbatim>\<open>ServeContent\<close> gives the status and the body that \<^verbatim>\<open>net/http\<close> gives to a
  request without \<^verbatim>\<open>Range\<close> and with no condition other than
  \<^verbatim>\<open>If-Modified-Since\<close>: 304 Not Modified, without \<^verbatim>\<open>Content-Type\<close> and without
  body, when \<open>modtime\<close> is not after the date of the header, and 200 with the content
  otherwise. The one date it can read is the one the examples use, and the headers
  that the library adds (\<^verbatim>\<open>Last-Modified\<close>, \<^verbatim>\<open>Accept-Ranges\<close>,
  \<^verbatim>\<open>Content-Length\<close>) are left out. Its file server is the one over a root that
  cannot be opened: every request gets 404.
\<close>

definition ishex :: "char \<Rightarrow> bool" where
  "ishex c = (c \<in> set ''0123456789abcdefABCDEF'')"

definition unhex :: "char \<Rightarrow> nat" where
  "unhex c =
     (let n = (of_char c :: nat)
      in if 48 \<le> n \<and> n \<le> 57 then n - 48
         else if 97 \<le> n \<and> n \<le> 102 then n - 97 + 10
         else if 65 \<le> n \<and> n \<le> 70 then n - 65 + 10
         else 0)"

fun example_escape_error :: "string \<Rightarrow> string option" where
  "example_escape_error (c # a # b # rest) =
     (if c = CHR ''%''
      then (if ishex a \<and> ishex b then example_escape_error rest else Some [c, a, b])
      else example_escape_error (a # b # rest))"
| "example_escape_error (c # s) =
     (if c = CHR ''%'' then Some (c # s) else example_escape_error s)"
| "example_escape_error [] = None"

fun example_decode :: "string \<Rightarrow> string" where
  "example_decode (c # a # b # rest) =
     (if c = CHR ''%'' then char_of (unhex a * 16 + unhex b) # example_decode rest
      else (if c = CHR ''+'' then CHR '' '' else c) # example_decode (a # b # rest))"
| "example_decode (c # s) = (if c = CHR ''+'' then CHR '' '' else c) # example_decode s"
| "example_decode [] = []"

definition example_QueryUnescape :: "string \<Rightarrow> error + string" where
  "example_QueryUnescape s =
     (case example_escape_error s of
        Some e \<Rightarrow> Inl (''invalid URL escape \"'' @ e @ ''\"'')
      | None \<Rightarrow> Inr (example_decode s))"

definition example_ParseTime :: "string \<Rightarrow> Time option" where
  "example_ParseTime s =
     (if s = ''Wed, 01 Jan 2020 00:00:00 GMT'' then Some 1577836800 else None)"

definition example_ServeContent ::
  "ResponseWriter \<Rightarrow> Request \<Rightarrow> string \<Rightarrow> Time \<Rightarrow> byte list \<Rightarrow> ResponseWriter" where
  "example_ServeContent w r name modtime content =
     (case example_ParseTime (Header_Get (Header r) ''If-Modified-Since'') of
        Some t \<Rightarrow>
          if modtime \<le> t
          then WriteHeader (w\<lparr>header := (header w)(''Content-Type'' := None)\<rparr>) 304
          else Write (WriteHeader w 200) content
      | None \<Rightarrow> Write (WriteHeader w 200) content)"

definition exampleLib :: stdlib where
  "exampleLib =
     \<lparr>url_QueryUnescape = example_QueryUnescape,
      http_ServeContent = example_ServeContent,
      http_FileServer = (\<lambda>root w r. http_Error w ''404 page not found'' 404)\<rparr>"

text \<open>
  \<open>exampleHost\<close> has five interfaces: \<^verbatim>\<open>lo\<close> (up, 127.0.0.1), \<^verbatim>\<open>eth0\<close> (up, a
  link-layer entry and an IPv6 address first, then 192.168.1.10 and 10.0.0.7),
  \<^verbatim>\<open>eth1\<close> (down), \<^verbatim>\<open>wlan0\<close> (up, IPv6 only) and \<^verbatim>\<open>tun0\<close> (up, its address list
  cannot be read). Its working directory is \<^verbatim>\<open>/srv/share\<close>, a directory that holds
  the regular file \<^verbatim>\<open>a.txt\<close>.
\<close>

definition exampleHost :: host where
  "exampleHost =
     \<lparr>net_InterfaceByName =
        (\<lambda>n. if n = ''lo'' then
                Inr \<lparr>Flags = 5, Addrs = Inr [IPNet [127, 0, 0, 1] [255, 0, 0, 0]]\<rparr>
              else if n = ''eth0'' then
                Inr \<lparr>Flags = 19,
                     Addrs = Inr [OtherAddr ''link'',
                                  IPNet [0xfe, 0x80, 0, 0, 0, 0, 0, 0, 0, 0, 0, 0, 0, 0, 0, 1]
                                        [255, 255, 255, 255, 255, 255, 255, 255, 0, 0, 0, 0, 0, 0, 0, 0],
                                  IPNet [192, 168, 1, 10] [255, 255, 255, 0],
                                  IPNet [10, 0, 0, 7] [255, 0, 0, 0]]\<rparr>
              else if n = ''eth1'' then
                Inr \<lparr>Flags = 18, Addrs = Inr [IPNet [192, 168, 2, 10] [255, 255, 255, 0]]\<rparr>
              else if n = ''wlan0'' then
                Inr \<lparr>Flags = 19,
                     Addrs = Inr [IPNet [0xfe, 0x80, 0, 0, 0, 0, 0, 0, 0, 0, 0, 0, 0, 0, 0, 2]
                                        [255, 255, 255, 255, 255, 255, 255, 255, 0, 0, 0, 0, 0, 0, 0, 0]]\<rparr>
              else if n = ''tun0'' then
                Inr \<lparr>Flags = 1, Addrs = Inl ''route ip+net: invalid argument''\<rparr>
              else Inl ''route ip+net: no such network interface''),
      filepath_Abs = (\<lambda>d. if d = ''.'' then Inr ''/srv/share'' else Inr (''/srv/share/'' @ d)),
      os_Stat =
        (\<lambda>p. if p = ''/srv/share'' then Inr \<lparr>IsDir = True\<rparr>
              else if p = ''/srv/share/a.txt'' then Inr \<lparr>IsDir = False\<rparr>
              else Inl (''stat '' @ p @ '': no such file or directory'')),
      ListenAndServe = (\<lambda>addr. None)\<rparr>"

text \<open>
  A stand-in for \<^verbatim>\<open>gnuflag.Parse\<close> on command lines that are a sequence of flags,
  each followed by its value, with the port in decimal. As the package does (its
  error handling is \<^verbatim>\<open>ExitOnError\<close>), it prints a message of its own and ends the
  process with status 2 when a value is not a \<^verbatim>\<open>uint\<close> or a flag is not known; the
  wording of the messages stands for the library's.
\<close>

fun example_decimal :: "nat \<Rightarrow> string \<Rightarrow> nat option" where
  "example_decimal acc [] = Some acc"
| "example_decimal acc (c # s) =
     (if 48 \<le> (of_char c :: nat) \<and> (of_char c :: nat) \<le> 57
      then example_decimal (10 * acc + (of_char c - 48)) s
      else None)"

definition example_ParseUint :: "string \<Rightarrow> error + uint" where
  "example_ParseUint s =
     (if s = [] then Inl (''strconv.ParseUint: parsing \"'' @ s @ ''\": invalid syntax'')
      else (case example_decimal 0 s of
              None \<Rightarrow> Inl (''strconv.ParseUint: parsing \"'' @ s @ ''\": invalid syntax'')
            | Some n \<Rightarrow>
                if n < 2 ^ 64 then Inr (of_nat n)
                else Inl (''strconv.ParseUint: parsing \"'' @ s @ ''\": value out of range'')))"

fun example_Parse :: "flags \<Rightarrow> string list \<Rightarrow> exit + flags" where
  "example_Parse fl [] = Inr fl"
| "example_Parse fl [a] = Inl (Exit (''error: flag needs an argument: '' @ a @ ''\<newline>'') 2)"
| "example_Parse fl (a # v # rest) =
     (if a = ''-i'' \<or> a = ''--interface'' then example_Parse (fl\<lparr>itf := v\<rparr>) rest
      else if a = ''-d'' \<or> a = ''--directory'' then example_Parse (fl\<lparr>dir := v\<rparr>) rest
      else if a = ''-p'' \<or> a = ''--port'' then
        (case example_ParseUint v of
           Inl err \<Rightarrow>
             Inl (Exit (''error: invalid value \"'' @ v @ ''\" for flag '' @ a @ '': '' @ err
                        @ ''\<newline>'') 2)
         | Inr p \<Rightarrow> example_Parse (fl\<lparr>port := p\<rparr>) rest)
      else Inl (Exit (''error: flag provided but not defined: '' @ a @ ''\<newline>'') 2))"

text \<open>Requests for the examples.\<close>

definition exampleRequest :: "string \<Rightarrow> Header \<Rightarrow> Request" where
  "exampleRequest uri h =
     \<lparr>RemoteAddr = ''192.168.1.20:51234'', Method = ''GET'', RequestURI = uri,
      URL_Path = uri, Header = h\<rparr>"


text \<open>
  The length of a string in the words of the specification: its characters. The
  strings are UTF-8, where the bytes \<^verbatim>\<open>10xxxxxx\<close> continue a character and every
  other byte starts one.
\<close>

definition characters :: "string \<Rightarrow> nat" where
  "characters s = length (filter (\<lambda>c. (of_char c :: nat) div 64 \<noteq> 2) s)"

section \<open>Properties\<close>

subsection \<open>Response writers and the dispatch\<close>

lemma SetHeader_header: "header (SetHeader w k v) = (header w)(k \<mapsto> [v])"
  by (simp add: SetHeader_def Header_Set_def)

lemma SetHeader_eq: "SetHeader w k v = w\<lparr>header := (header w)(k \<mapsto> [v])\<rparr>"
  by (simp add: SetHeader_def Header_Set_def)


lemma http_Error_header:
  "header (http_Error w msg code) =
     (header w)(''Content-Type'' \<mapsto> [''text/plain; charset=utf-8''],
                ''X-Content-Type-Options'' \<mapsto> [''nosniff''])"
  by (simp add: http_Error_def Let_def SetHeader_eq WriteHeader_def Write_def)

subsection \<open>The handler, branch by branch\<close>

lemma handler_invalid:
  "url_QueryUnescape lib (RequestURI req) = Inl err \<Longrightarrow>
   handler lib ts root resp req tr =
     (http_Error (SetHeader resp ''Server'' ''web-share'') ''Invalid URI'' 400,
      tr @ [Println [RemoteAddr req, ''Invalid URI:'', err]])"
  by (simp add: handler_def StatusBadRequest_def)

lemma handler_log:
  "url_QueryUnescape lib (RequestURI req) = Inr uri \<Longrightarrow>
   snd (handler lib ts root resp req tr) =
     tr @ [Println (if Header_Get (Header req) ''Range'' \<noteq> []
                       \<and> Header_Get (Header req) ''Range'' \<noteq> ''bytes=0-''
                    then [RemoteAddr req, Method req, shortenURI uri,
                          Header_Get (Header req) ''Range'']
                    else [RemoteAddr req, Method req, shortenURI uri])]"
  by (simp add: handler_def Let_def)

lemma handler_favicon:
  "url_QueryUnescape lib (RequestURI req) = Inr ''/favicon.ico'' \<Longrightarrow>
   fst (handler lib ts root resp req tr) =
     http_ServeContent lib
       (SetHeader (SetHeader resp ''Server'' ''web-share'') ''Content-Type'' ''image/x-icon'')
       req (URL_Path req) ts favicon"
  by (simp add: handler_def Let_def)

lemma handler_files:
  "url_QueryUnescape lib (RequestURI req) = Inr uri \<Longrightarrow> uri \<noteq> ''/favicon.ico'' \<Longrightarrow>
   fst (handler lib ts root resp req tr) =
     http_FileServer lib root
       (SetHeader (SetHeader (SetHeader (SetHeader resp ''Server'' ''web-share'')
          ''Cache-Control'' ''no-cache, no-store, must-revalidate'') ''Pragma'' ''no-cache'')
          ''Expires'' ''0'')
       req"
  by (simp add: handler_def Let_def)


subsection \<open>The server\<close>





subsection \<open>The example library\<close>

lemma char_of_195: "char_of (195::nat) = CHR 0xC3"
  by (simp add: char_of_def bit_Suc_0_iff)

lemma char_of_169: "char_of (169::nat) = CHR 0xA9"
  by (simp add: char_of_def bit_Suc_0_iff)

lemma example_escape_error_Cons:
  assumes "c \<noteq> CHR ''%''"
  shows "example_escape_error (c # s) = example_escape_error s"
proof (cases s)
  case Nil
  with assms show ?thesis by simp
next
  case (Cons a t)
  with assms show ?thesis by (cases t) simp_all
qed

lemma example_decode_Cons:
  assumes "c \<noteq> CHR ''%''" and "c \<noteq> CHR ''+''"
  shows "example_decode (c # s) = c # example_decode s"
proof (cases s)
  case Nil
  with assms show ?thesis by simp
next
  case (Cons a t)
  with assms show ?thesis by (cases t) simp_all
qed

lemma example_escape_error_plain:
  "CHR ''%'' \<notin> set s \<Longrightarrow> example_escape_error s = None"
proof (induction s)
  case Nil
  show ?case by simp
next
  case (Cons c s)
  then have "c \<noteq> CHR ''%''" by auto
  with Cons show ?case by (simp add: example_escape_error_Cons)
qed

lemma example_decode_plain:
  "CHR ''%'' \<notin> set s \<Longrightarrow> CHR ''+'' \<notin> set s \<Longrightarrow> example_decode s = s"
proof (induction s)
  case Nil
  show ?case by simp
next
  case (Cons c s)
  then have "c \<noteq> CHR ''%''" and "c \<noteq> CHR ''+''" by auto
  with Cons show ?case by (simp add: example_decode_Cons)
qed

lemma example_QueryUnescape_plain:
  "CHR ''%'' \<notin> set s \<Longrightarrow> CHR ''+'' \<notin> set s \<Longrightarrow> example_QueryUnescape s = Inr s"
  by (simp add: example_QueryUnescape_def example_escape_error_plain example_decode_plain)

lemma example_escape_error_C3A9:
  "example_escape_error (concat (replicate n ''%C3%A9'') @ s) = example_escape_error s"
  by (induction n) (simp_all add: ishex_def)

lemma example_decode_C3A9:
  "example_decode (concat (replicate n ''%C3%A9'') @ s)
     = concat (replicate n [CHR 0xC3, CHR 0xA9]) @ example_decode s"
  by (induction n) (simp_all add: unhex_def char_of_195 char_of_169)

lemma example_QueryUnescape_C3A9:
  "example_QueryUnescape (CHR ''/'' # concat (replicate n ''%C3%A9''))
     = Inr (CHR ''/'' # concat (replicate n [CHR 0xC3, CHR 0xA9]))"
  using example_escape_error_C3A9 [of n "[]"] example_decode_C3A9 [of n "[]"]
  by (simp add: example_QueryUnescape_def example_escape_error_Cons example_decode_Cons)

lemma characters_C3A9: "characters (concat (replicate n [CHR 0xC3, CHR 0xA9])) = n"
  by (induction n) (simp_all add: characters_def)

lemma characters_Cons: "characters (c # s) = characters [c] + characters s"
  by (simp add: characters_def)

lemma length_C3A9: "length (concat (replicate n [CHR 0xC3, CHR 0xA9])) = 2 * n"
  by (induction n) simp_all

lemmas example_defs = exampleLib_def exampleRequest_def newResponseWriter_def
  example_QueryUnescape_def ishex_def unhex_def
  example_ServeContent_def example_ParseTime_def Header_Get_def
  http_Error_def SetHeader_def Header_Set_def WriteHeader_def Write_def Let_def

subsection \<open>shortenURI\<close>

lemma shortenURI_long: "length u > 500 \<Longrightarrow> shortenURI u = take 500 u @ '' ...''"
  by (simp add: shortenURI_def maxURI_def)

lemma shortenURI_short: "length u \<le> 500 \<Longrightarrow> shortenURI u = u"
  by (simp add: shortenURI_def maxURI_def)

lemma shortenURI_length_long: "length u > 500 \<Longrightarrow> length (shortenURI u) = 504"
  by (simp add: shortenURI_long)

lemma shortenURI_fixed_iff:
  "shortenURI u = u \<longleftrightarrow> length u \<le> 500 \<or> (length u = 504 \<and> drop 500 u = '' ...'')"
proof (cases "length u > 500")
  case False
  then show ?thesis by (simp add: shortenURI_short)
next
  case True
  have "take 500 u @ '' ...'' = u \<longleftrightarrow> drop 500 u = '' ...''"
  proof
    assume "take 500 u @ '' ...'' = u"
    then have "drop 500 (take 500 u @ '' ...'') = drop 500 u" by simp
    with True show "drop 500 u = '' ...''" by simp
  next
    assume "drop 500 u = '' ...''"
    then have "take 500 u @ '' ...'' = take 500 u @ drop 500 u" by simp
    then show "take 500 u @ '' ...'' = u" by simp
  qed
  moreover have "drop 500 u = '' ...'' \<Longrightarrow> length u = 504"
  proof -
    assume "drop 500 u = '' ...''"
    then have "length (drop 500 u) = 4" by simp
    with True show "length u = 504" by simp
  qed
  ultimately show ?thesis using True by (auto simp: shortenURI_long)
qed

subsection \<open>findIP\<close>





subsection \<open>main\<close>

lemma main_invalid_port:
  "port fl = 0 \<or> port fl > 0xFFFF \<Longrightarrow>
   main h lib ts fl
     = ([WriteString (''ERROR: Invalid port number: '' @ uintToString (port fl) @ ''\<newline>'')],
        Exited 1)"
  by (simp add: main_def terminate_def die_def)

lemma example_decimal_2_64:
  "example_decimal 0 ''18446744073709551616'' = Some 18446744073709551616"
  by simp

subsection \<open>The icon\<close>

text \<open>
  C1, as the code has it. When the request URI decodes to \<^verbatim>\<open>/favicon.ico\<close>, the
  handler sets \<^verbatim>\<open>Content-Type: image/x-icon\<close> (after \<^verbatim>\<open>Server\<close>) and hands the
  writer, the request, the embedded icon and the fixed timestamp \<open>faviconTS\<close> to
  \<^verbatim>\<open>http.ServeContent\<close>; what that call answers is the response, status included.
  The outcome does not depend on the root directory or on the file server, which is not
  called: any other root and any other file server give the same response and the same
  log.
\<close>

theorem favicon_handed_to_ServeContent:
  assumes "url_QueryUnescape lib (RequestURI req) = Inr ''/favicon.ico''"
  shows "fst (handler lib ts root resp req tr)
           = http_ServeContent lib
               (resp\<lparr>header := (header resp)(''Server'' \<mapsto> [''web-share''],
                                               ''Content-Type'' \<mapsto> [''image/x-icon''])\<rparr>)
               req (URL_Path req) ts favicon
       \<and> handler (lib\<lparr>http_FileServer := fs\<rparr>) ts root' resp req tr
           = handler lib ts root resp req tr"
proof -
  have "fst (handler lib ts root resp req tr)
           = http_ServeContent lib
               (resp\<lparr>header := (header resp)(''Server'' \<mapsto> [''web-share''],
                                               ''Content-Type'' \<mapsto> [''image/x-icon''])\<rparr>)
               req (URL_Path req) ts favicon"
    by (simp add: handler_favicon [OF assms] SetHeader_eq)
  moreover have "handler (lib\<lparr>http_FileServer := fs\<rparr>) ts root' resp req tr
           = handler lib ts root resp req tr"
    using assms by (simp add: handler_def Let_def)
  ultimately show ?thesis by blast
qed

text \<open>
  An unconditional GET of \<^verbatim>\<open>/favicon.ico\<close> against the example library: 200 with the
  icon as body, and the same result with another root and a file server that would
  have answered with a file.
\<close>

theorem favicon_handed_to_ServeContent_witness:
  "fst (handler exampleLib 1530000000 ''/srv/share'' newResponseWriter
          (exampleRequest ''/favicon.ico'' Map.empty) [])
     = \<lparr>header = [''Server'' \<mapsto> [''web-share''], ''Content-Type'' \<mapsto> [''image/x-icon'']],
        status = Some 200, body = favicon\<rparr>
   \<and> handler (exampleLib\<lparr>http_FileServer := (\<lambda>root w r. Write (WriteHeader w 200) (bytes ''a real file''))\<rparr>)
        1530000000 ''/tmp'' newResponseWriter (exampleRequest ''/favicon.ico'' Map.empty) []
     = handler exampleLib 1530000000 ''/srv/share'' newResponseWriter
         (exampleRequest ''/favicon.ico'' Map.empty) []"
  using favicon_handed_to_ServeContent [where lib = exampleLib
      and req = "exampleRequest ''/favicon.ico'' Map.empty" and resp = newResponseWriter
      and ts = 1530000000 and root = "''/srv/share''" and tr = "[]" and root' = "''/tmp''"
      and fs = "\<lambda>root w r. Write (WriteHeader w 200) (bytes ''a real file'')"]
  by (simp add: example_defs)

text \<open>
  C1, as the claim words it: "returning HTTP 200" for every request whose URI decodes
  to \<^verbatim>\<open>/favicon.ico\<close>. The timestamp is passed for conditional requests, and a
  conditional GET whose \<^verbatim>\<open>If-Modified-Since\<close> is not before the timestamp is answered
  304 Not Modified, without \<^verbatim>\<open>Content-Type\<close>.
\<close>

theorem favicon_conditional_GET_304:
  "url_QueryUnescape exampleLib
     (RequestURI (exampleRequest ''/favicon.ico''
                    [''If-Modified-Since'' \<mapsto> [''Wed, 01 Jan 2020 00:00:00 GMT'']]))
     = Inr ''/favicon.ico''
   \<and> status (fst (handler exampleLib 1530000000 ''/srv/share'' newResponseWriter
              (exampleRequest ''/favicon.ico''
                 [''If-Modified-Since'' \<mapsto> [''Wed, 01 Jan 2020 00:00:00 GMT'']]) []))
       = Some 304
   \<and> header (fst (handler exampleLib 1530000000 ''/srv/share'' newResponseWriter
              (exampleRequest ''/favicon.ico''
                 [''If-Modified-Since'' \<mapsto> [''Wed, 01 Jan 2020 00:00:00 GMT'']]) []))
        ''Content-Type'' = None"
  by (simp add: handler_def example_defs)

subsection \<open>A request URI that cannot be decoded\<close>



subsection \<open>Every other path\<close>

text \<open>
  C3. Let \<^verbatim>\<open>serveFrom(dir)\<close> return a handler. Then \<^verbatim>\<open>filepath.Abs\<close> made \<open>dir\<close>
  into a path \<open>root\<close> that \<^verbatim>\<open>os.Stat\<close> found to be a directory, and for every request
  whose URI decodes to something other than \<^verbatim>\<open>/favicon.ico\<close> the handler's response is
  what the file server rooted at \<open>root\<close> answers to that request on the incoming
  writer with \<^verbatim>\<open>Server\<close> and exactly the three headers \<^verbatim>\<open>Cache-Control\<close>,
  \<^verbatim>\<open>Pragma\<close> and \<^verbatim>\<open>Expires\<close> set, every other header left as it was.
\<close>

theorem other_paths_no_cache_then_file_server:
  assumes "serveFrom h lib ts d = Inr (tr0, hf)"
    and "url_QueryUnescape lib (RequestURI req) = Inr uri"
    and "uri \<noteq> ''/favicon.ico''"
  shows "\<exists>root info. filepath_Abs h d = Inr root \<and> os_Stat h root = Inr info \<and> IsDir info
           \<and> fst (hf resp req tr)
               = http_FileServer lib root
                   (resp\<lparr>header := (header resp)
                      (''Server'' \<mapsto> [''web-share''],
                       ''Cache-Control'' \<mapsto> [''no-cache, no-store, must-revalidate''],
                       ''Pragma'' \<mapsto> [''no-cache''],
                       ''Expires'' \<mapsto> [''0''])\<rparr>)
                   req"
proof -
  from assms(1) obtain root where ab: "absPath h d = Inr root" and hf: "hf = handler lib ts root"
    by (auto simp: serveFrom_def split: sum.splits)
  from ab obtain info where "filepath_Abs h d = Inr root" "os_Stat h root = Inr info" "IsDir info"
    by (auto simp: absPath_def split: sum.splits if_splits)
  moreover have "fst (hf resp req tr)
               = http_FileServer lib root
                   (resp\<lparr>header := (header resp)
                      (''Server'' \<mapsto> [''web-share''],
                       ''Cache-Control'' \<mapsto> [''no-cache, no-store, must-revalidate''],
                       ''Pragma'' \<mapsto> [''no-cache''],
                       ''Expires'' \<mapsto> [''0''])\<rparr>)
                   req"
    by (simp add: hf handler_files [OF assms(2,3)] SetHeader_eq)
  ultimately show ?thesis by blast
qed

text \<open>
  The example host started in its working directory, and a request for \<^verbatim>\<open>/a.txt\<close>.
\<close>

theorem other_paths_no_cache_then_file_server_witness:
  "serveFrom exampleHost exampleLib 1530000000 ''.''
     = Inr ([Println [''Serving files from'', ''/srv/share'']],
            handler exampleLib 1530000000 ''/srv/share'')
   \<and> filepath_Abs exampleHost ''.'' = Inr ''/srv/share''
   \<and> os_Stat exampleHost ''/srv/share'' = Inr \<lparr>IsDir = True\<rparr>
   \<and> fst (handler exampleLib 1530000000 ''/srv/share'' newResponseWriter
            (exampleRequest ''/a.txt'' Map.empty) [])
       = http_FileServer exampleLib ''/srv/share''
           \<lparr>header = [''Server'' \<mapsto> [''web-share''],
                      ''Cache-Control'' \<mapsto> [''no-cache, no-store, must-revalidate''],
                      ''Pragma'' \<mapsto> [''no-cache''], ''Expires'' \<mapsto> [''0'']],
            status = None, body = []\<rparr>
           (exampleRequest ''/a.txt'' Map.empty)"
proof -
  have s: "serveFrom exampleHost exampleLib 1530000000 ''.''
     = Inr ([Println [''Serving files from'', ''/srv/share'']],
            handler exampleLib 1530000000 ''/srv/share'')"
    by (simp add: serveFrom_def absPath_def exampleHost_def)
  have u: "url_QueryUnescape exampleLib (RequestURI (exampleRequest ''/a.txt'' Map.empty))
             = Inr ''/a.txt''"
    by (simp add: exampleLib_def exampleRequest_def example_QueryUnescape_plain)
  have n: "''/a.txt'' \<noteq> ''/favicon.ico''" by simp
  show ?thesis
    using other_paths_no_cache_then_file_server [OF s u n, where resp = newResponseWriter
        and tr = "[]"] s
    by (auto simp: exampleHost_def newResponseWriter_def)
qed

subsection \<open>The log\<close>

text \<open>
  C4, as the code has it. Let the request URI decode to \<open>uri\<close>. If \<open>uri\<close> is longer
  than 500 bytes, the URI operand of the log line is the first 500 bytes of
  \<open>uri\<close> followed by \<^verbatim>\<open>" ..."\<close>, and the file server receives the request itself,
  whose URI is the whole one. If \<open>uri\<close> is at most 500 bytes long it is logged as it
  is.
\<close>

theorem log_truncated_request_passed_whole:
  assumes "url_QueryUnescape lib (RequestURI req) = Inr uri"
  shows "(500 < length uri \<longrightarrow>
            snd (handler lib ts root resp req tr)
              = tr @ [Println ([RemoteAddr req, Method req, take 500 uri @ '' ...'']
                               @ (if Header_Get (Header req) ''Range'' \<noteq> []
                                     \<and> Header_Get (Header req) ''Range'' \<noteq> ''bytes=0-''
                                  then [Header_Get (Header req) ''Range''] else []))]
            \<and> (\<exists>w. fst (handler lib ts root resp req tr) = http_FileServer lib root w req))
       \<and> (length uri \<le> 500 \<longrightarrow>
            snd (handler lib ts root resp req tr)
              = tr @ [Println ([RemoteAddr req, Method req, uri]
                               @ (if Header_Get (Header req) ''Range'' \<noteq> []
                                     \<and> Header_Get (Header req) ''Range'' \<noteq> ''bytes=0-''
                                  then [Header_Get (Header req) ''Range''] else []))])"
proof (cases "500 < length uri")
  case True
  then have ne: "uri \<noteq> ''/favicon.ico''" by auto
  have "snd (handler lib ts root resp req tr)
              = tr @ [Println ([RemoteAddr req, Method req, take 500 uri @ '' ...'']
                               @ (if Header_Get (Header req) ''Range'' \<noteq> []
                                     \<and> Header_Get (Header req) ''Range'' \<noteq> ''bytes=0-''
                                  then [Header_Get (Header req) ''Range''] else []))]"
    using True by (simp add: handler_log [OF assms] shortenURI_long)
  moreover have "\<exists>w. fst (handler lib ts root resp req tr) = http_FileServer lib root w req"
    using handler_files [OF assms ne] by blast
  ultimately show ?thesis using True by simp
next
  case False
  then show ?thesis by (simp add: handler_log [OF assms] shortenURI_short)
qed

text \<open>
  A URI of 601 bytes and a short one, against the example library.
\<close>

theorem log_truncated_request_passed_whole_witness:
  "snd (handler exampleLib 1530000000 ''/srv/share'' newResponseWriter
          (exampleRequest (CHR ''/'' # replicate 600 CHR ''a'') Map.empty) [])
     = [Println [''192.168.1.20:51234'', ''GET'', CHR ''/'' # replicate 499 CHR ''a'' @ '' ...'']]
   \<and> fst (handler exampleLib 1530000000 ''/srv/share'' newResponseWriter
          (exampleRequest (CHR ''/'' # replicate 600 CHR ''a'') Map.empty) [])
     = http_FileServer exampleLib ''/srv/share''
         \<lparr>header = [''Server'' \<mapsto> [''web-share''],
                    ''Cache-Control'' \<mapsto> [''no-cache, no-store, must-revalidate''],
                    ''Pragma'' \<mapsto> [''no-cache''], ''Expires'' \<mapsto> [''0'']],
          status = None, body = []\<rparr>
         (exampleRequest (CHR ''/'' # replicate 600 CHR ''a'') Map.empty)
   \<and> snd (handler exampleLib 1530000000 ''/srv/share'' newResponseWriter
          (exampleRequest ''/a.txt'' Map.empty) [])
     = [Println [''192.168.1.20:51234'', ''GET'', ''/a.txt'']]"
proof -
  have t: "take 500 (CHR ''/'' # replicate 600 CHR ''a'') = CHR ''/'' # replicate 499 CHR ''a''"
    by (simp add: take_Cons')
  have n: "CHR ''/'' # replicate 600 CHR ''a'' \<noteq> ''/favicon.ico''"
  proof
    assume "CHR ''/'' # replicate 600 CHR ''a'' = ''/favicon.ico''"
    then have "length (CHR ''/'' # replicate 600 CHR ''a'') = length ''/favicon.ico''"
      by (rule arg_cong)
    then show False by simp
  qed
  have f: "fst (handler exampleLib 1530000000 ''/srv/share'' newResponseWriter
          (exampleRequest (CHR ''/'' # replicate 600 CHR ''a'') Map.empty) [])
     = http_FileServer exampleLib ''/srv/share''
         \<lparr>header = [''Server'' \<mapsto> [''web-share''],
                    ''Cache-Control'' \<mapsto> [''no-cache, no-store, must-revalidate''],
                    ''Pragma'' \<mapsto> [''no-cache''], ''Expires'' \<mapsto> [''0'']],
          status = None, body = []\<rparr>
         (exampleRequest (CHR ''/'' # replicate 600 CHR ''a'') Map.empty)"
    using n by (subst handler_files [where uri = "CHR ''/'' # replicate 600 CHR ''a''"])
      (simp_all add: exampleLib_def exampleRequest_def newResponseWriter_def SetHeader_def
         Header_Set_def example_QueryUnescape_plain)
  show ?thesis
    using log_truncated_request_passed_whole [where lib = exampleLib
        and req = "exampleRequest (CHR ''/'' # replicate 600 CHR ''a'') Map.empty"
        and uri = "CHR ''/'' # replicate 600 CHR ''a''" and resp = newResponseWriter
        and ts = 1530000000 and root = "''/srv/share''" and tr = "[]"]
      log_truncated_request_passed_whole [where lib = exampleLib
        and req = "exampleRequest ''/a.txt'' Map.empty"
        and uri = "''/a.txt''" and resp = newResponseWriter
        and ts = 1530000000 and root = "''/srv/share''" and tr = "[]"]
      t f
    by (simp add: exampleLib_def exampleRequest_def Header_Get_def example_QueryUnescape_plain)
qed

text \<open>
  C4, as the claim words it: lengths in characters. The program measures and cuts in
  bytes. The request \<^verbatim>\<open>GET /\<close> followed by 300 times \<^verbatim>\<open>%C3%A9\<close> decodes to a slash
  and 300 two-byte characters: 301 characters, which is "500 characters or fewer", in
  601 bytes. It is not logged unchanged: the log has its first 500 bytes and the
  marker.
\<close>

theorem URI_of_301_characters_logged_truncated:
  "url_QueryUnescape exampleLib
     (RequestURI (exampleRequest (CHR ''/'' # concat (replicate 300 ''%C3%A9'')) Map.empty))
     = Inr (CHR ''/'' # concat (replicate 300 [CHR 0xC3, CHR 0xA9]))
   \<and> characters (CHR ''/'' # concat (replicate 300 [CHR 0xC3, CHR 0xA9])) = 301
   \<and> snd (handler exampleLib 1530000000 ''/srv/share'' newResponseWriter
            (exampleRequest (CHR ''/'' # concat (replicate 300 ''%C3%A9'')) Map.empty) [])
       = [Println [''192.168.1.20:51234'', ''GET'',
                   take 500 (CHR ''/'' # concat (replicate 300 [CHR 0xC3, CHR 0xA9])) @ '' ...'']]
   \<and> take 500 (CHR ''/'' # concat (replicate 300 [CHR 0xC3, CHR 0xA9])) @ '' ...''
       \<noteq> CHR ''/'' # concat (replicate 300 [CHR 0xC3, CHR 0xA9])"
proof -
  let ?u = "CHR ''/'' # concat (replicate 300 [CHR 0xC3, CHR 0xA9])"
  let ?req = "exampleRequest (CHR ''/'' # concat (replicate 300 ''%C3%A9'')) Map.empty"
  have u: "url_QueryUnescape exampleLib (RequestURI ?req) = Inr ?u"
    by (simp add: exampleLib_def exampleRequest_def example_QueryUnescape_C3A9)
  have c: "characters ?u = 301"
    by (subst characters_Cons) (simp add: characters_C3A9, simp add: characters_def)
  have l: "length ?u = 601" by (simp add: length_C3A9)
  have g: "snd (handler exampleLib 1530000000 ''/srv/share'' newResponseWriter ?req [])
       = [Println [''192.168.1.20:51234'', ''GET'', take 500 ?u @ '' ...'']]"
    using l by (simp add: handler_log [OF u] shortenURI_long)
      (simp add: exampleRequest_def Header_Get_def)
  have n: "take 500 ?u @ '' ...'' \<noteq> ?u"
  proof
    assume "take 500 ?u @ '' ...'' = ?u"
    then have "length (take 500 ?u @ '' ...'') = length ?u" by (rule arg_cong)
    with l show False by simp
  qed
  from u c g n show ?thesis by blast
qed

text \<open>
  C8. Let the request URI decode to \<open>uri\<close>. The handler adds one line to the log: the
  remote address, the method and the (possibly shortened) URI, followed by the value
  of the \<^verbatim>\<open>Range\<close> header (the first one stored under that key) exactly when the
  header is present and that value is neither empty nor \<^verbatim>\<open>bytes=0-\<close>.
\<close>

theorem Range_logged_unless_absent_empty_or_whole:
  assumes "url_QueryUnescape lib (RequestURI req) = Inr uri"
  shows "snd (handler lib ts root resp req tr)
           = tr @ [Println ([RemoteAddr req, Method req, shortenURI uri]
                            @ (case Header req ''Range'' of
                                 Some (v # vs) \<Rightarrow> if v \<noteq> [] \<and> v \<noteq> ''bytes=0-'' then [v] else []
                               | _ \<Rightarrow> []))]"
  using assms
  by (simp add: handler_log Header_Get_def split: option.splits list.splits)

text \<open>
  Three requests for \<^verbatim>\<open>/a.txt\<close>: with \<^verbatim>\<open>Range: bytes=100-\<close>, with
  \<^verbatim>\<open>Range: bytes=0-\<close>, and without the header.
\<close>

theorem Range_logged_unless_absent_empty_or_whole_witness:
  "snd (handler exampleLib 1530000000 ''/srv/share'' newResponseWriter
          (exampleRequest ''/a.txt'' [''Range'' \<mapsto> [''bytes=100-'']]) [])
     = [Println [''192.168.1.20:51234'', ''GET'', ''/a.txt'', ''bytes=100-'']]
   \<and> snd (handler exampleLib 1530000000 ''/srv/share'' newResponseWriter
          (exampleRequest ''/a.txt'' [''Range'' \<mapsto> [''bytes=0-'']]) [])
     = [Println [''192.168.1.20:51234'', ''GET'', ''/a.txt'']]
   \<and> snd (handler exampleLib 1530000000 ''/srv/share'' newResponseWriter
          (exampleRequest ''/a.txt'' Map.empty) [])
     = [Println [''192.168.1.20:51234'', ''GET'', ''/a.txt'']]"
  using Range_logged_unless_absent_empty_or_whole [where lib = exampleLib
      and req = "exampleRequest ''/a.txt'' [''Range'' \<mapsto> [''bytes=100-'']]"
      and uri = "''/a.txt''" and resp = newResponseWriter
      and ts = 1530000000 and root = "''/srv/share''" and tr = "[]"]
    Range_logged_unless_absent_empty_or_whole [where lib = exampleLib
      and req = "exampleRequest ''/a.txt'' [''Range'' \<mapsto> [''bytes=0-'']]"
      and uri = "''/a.txt''" and resp = newResponseWriter
      and ts = 1530000000 and root = "''/srv/share''" and tr = "[]"]
    Range_logged_unless_absent_empty_or_whole [where lib = exampleLib
      and req = "exampleRequest ''/a.txt'' Map.empty"
      and uri = "''/a.txt''" and resp = newResponseWriter
      and ts = 1530000000 and root = "''/srv/share''" and tr = "[]"]
  by (simp add: exampleLib_def exampleRequest_def shortenURI_def maxURI_def
        example_QueryUnescape_plain)

subsection \<open>Startup\<close>

text \<open>
  C5, as the code has it. When \<^verbatim>\<open>gnuflag.Parse\<close> returns and the port it has parsed
  is 0 or greater than 65535, \<^verbatim>\<open>main\<close> writes \<^verbatim>\<open>ERROR: Invalid port number: \<close> and
  the port to the error stream and exits with status 1. Nothing else is written, and
  the outcome is the same on every machine, for every interface name and every
  directory: neither the interface table nor the file system nor the listener is
  reached.
\<close>

theorem invalid_port_exits_1:
  assumes "gnuflag_Parse \<lparr>itf = [], port = defaultPort, dir = ''.''\<rparr> args = Inr fl"
    and "port fl = 0 \<or> port fl > 0xFFFF"
  shows "main_Parse gnuflag_Parse h lib ts args
           = ([WriteString (''ERROR: Invalid port number: '' @ uintToString (port fl) @ ''\<newline>'')],
              Exited 1)"
  using assms by (simp add: main_Parse_def main_invalid_port)

text \<open>
  Ports 0 and 65536 on the example host, with a good interface and directory and with
  bad ones.
\<close>

theorem invalid_port_exits_1_witness:
  "main_Parse example_Parse exampleHost exampleLib 1530000000 [''-i'', ''eth0'', ''-p'', ''0'']
     = ([WriteString ''ERROR: Invalid port number: 0\<newline>''], Exited 1)
   \<and> main_Parse example_Parse exampleHost exampleLib 1530000000
        [''-i'', ''eth0'', ''--port'', ''65536'']
     = ([WriteString ''ERROR: Invalid port number: 65536\<newline>''], Exited 1)
   \<and> main_Parse example_Parse exampleHost exampleLib 1530000000
        [''-i'', ''nosuch'', ''-p'', ''65536'', ''-d'', ''missing'']
     = ([WriteString ''ERROR: Invalid port number: 65536\<newline>''], Exited 1)"
proof -
  have a: "example_Parse \<lparr>itf = [], port = defaultPort, dir = ''.''\<rparr> [''-i'', ''eth0'', ''-p'', ''0'']
             = Inr \<lparr>itf = ''eth0'', port = 0, dir = ''.''\<rparr>"
    by (simp add: example_ParseUint_def)
  have b: "example_Parse \<lparr>itf = [], port = defaultPort, dir = ''.''\<rparr>
             [''-i'', ''eth0'', ''--port'', ''65536'']
             = Inr \<lparr>itf = ''eth0'', port = 65536, dir = ''.''\<rparr>"
    by (simp add: example_ParseUint_def)
  have c: "example_Parse \<lparr>itf = [], port = defaultPort, dir = ''.''\<rparr>
             [''-i'', ''nosuch'', ''-p'', ''65536'', ''-d'', ''missing'']
             = Inr \<lparr>itf = ''nosuch'', port = 65536, dir = ''missing''\<rparr>"
    by (simp add: example_ParseUint_def)
  show ?thesis
    using invalid_port_exits_1 [where gnuflag_Parse = example_Parse and h = exampleHost
        and lib = exampleLib and ts = 1530000000 and args = "[''-i'', ''eth0'', ''-p'', ''0'']"
        and fl = "\<lparr>itf = ''eth0'', port = 0, dir = ''.''\<rparr>"]
      invalid_port_exits_1 [where gnuflag_Parse = example_Parse and h = exampleHost
        and lib = exampleLib and ts = 1530000000
        and args = "[''-i'', ''eth0'', ''--port'', ''65536'']"
        and fl = "\<lparr>itf = ''eth0'', port = 65536, dir = ''.''\<rparr>"]
      invalid_port_exits_1 [where gnuflag_Parse = example_Parse and h = exampleHost
        and lib = exampleLib and ts = 1530000000
        and args = "[''-i'', ''nosuch'', ''-p'', ''65536'', ''-d'', ''missing'']"
        and fl = "\<lparr>itf = ''nosuch'', port = 65536, dir = ''missing''\<rparr>"]
      a b c
    by (simp add: uintToString_def del: example_Parse.simps)
qed

text \<open>
  C5, as the claim words it: every port value of the command line that is greater than
  65535. The port 18446744073709551616 is not a \<^verbatim>\<open>uint\<close>: the parser ends the
  process itself, with a message of its own and status 2, and the check of the port in
  \<^verbatim>\<open>main\<close> is not reached.
\<close>

theorem port_not_a_uint_exits_2:
  "main_Parse example_Parse exampleHost exampleLib 1530000000
     [''-i'', ''eth0'', ''-p'', ''18446744073709551616'']
     = ([WriteString (''error: invalid value \"18446744073709551616\" for flag -p: ''
                      @ ''strconv.ParseUint: parsing \"18446744073709551616\": value out of range''
                      @ ''\<newline>'')],
        Exited 2)"
  by (simp add: main_Parse_def terminate_def example_ParseUint_def example_decimal_2_64
        del: example_decimal.simps)



subsection \<open>Response headers\<close>

text \<open>
  C7. The first thing the handler does is to set \<^verbatim>\<open>Server: web-share\<close>. On the
  error path \<^verbatim>\<open>http.Error\<close> is given the writer with that header, and the response
  carries it; on the two other paths the writer that \<^verbatim>\<open>http.ServeContent\<close> or the
  file server is given carries it.
\<close>

theorem Server_header_on_every_branch:
  "(case url_QueryUnescape lib (RequestURI req) of
      Inl err \<Rightarrow>
        fst (handler lib ts root resp req tr)
          = http_Error (SetHeader resp ''Server'' ''web-share'') ''Invalid URI'' 400
        \<and> header (fst (handler lib ts root resp req tr)) ''Server'' = Some [''web-share'']
    | Inr uri \<Rightarrow>
        (\<exists>w. header w ''Server'' = Some [''web-share'']
           \<and> fst (handler lib ts root resp req tr)
               = (if uri = ''/favicon.ico''
                  then http_ServeContent lib w req (URL_Path req) ts favicon
                  else http_FileServer lib root w req)))"
proof (cases "url_QueryUnescape lib (RequestURI req)")
  case (Inl err)
  have "header (http_Error (SetHeader resp ''Server'' ''web-share'') ''Invalid URI'' 400) ''Server''
          = Some [''web-share'']"
    by (simp add: http_Error_header SetHeader_header)
  with Inl show ?thesis by (simp add: handler_invalid)
next
  case (Inr uri)
  show ?thesis
  proof (cases "uri = ''/favicon.ico''")
    case True
    let ?w = "SetHeader (SetHeader resp ''Server'' ''web-share'') ''Content-Type'' ''image/x-icon''"
    have "header ?w ''Server'' = Some [''web-share'']" by (simp add: SetHeader_header)
    moreover have "fst (handler lib ts root resp req tr)
                     = http_ServeContent lib ?w req (URL_Path req) ts favicon"
      using Inr True by (simp add: handler_favicon)
    ultimately show ?thesis using Inr True by auto
  next
    case False
    let ?w = "SetHeader (SetHeader (SetHeader (SetHeader resp ''Server'' ''web-share'')
          ''Cache-Control'' ''no-cache, no-store, must-revalidate'') ''Pragma'' ''no-cache'')
          ''Expires'' ''0''"
    have "header ?w ''Server'' = Some [''web-share'']" by (simp add: SetHeader_header)
    moreover have "fst (handler lib ts root resp req tr) = http_FileServer lib root ?w req"
      using Inr False by (rule handler_files)
    ultimately show ?thesis using Inr False by auto
  qed
qed

text \<open>
  The three paths against the example library, whose \<^verbatim>\<open>ServeContent\<close> and file
  server keep the header: a URI that cannot be decoded, the icon, and a file.
\<close>

theorem Server_header_on_every_branch_witness:
  "header (fst (handler exampleLib 1530000000 ''/srv/share'' newResponseWriter
                  (exampleRequest ''/%zz'' Map.empty) [])) ''Server'' = Some [''web-share'']
   \<and> header (fst (handler exampleLib 1530000000 ''/srv/share'' newResponseWriter
                  (exampleRequest ''/favicon.ico'' Map.empty) [])) ''Server'' = Some [''web-share'']
   \<and> header (fst (handler exampleLib 1530000000 ''/srv/share'' newResponseWriter
                  (exampleRequest ''/a.txt'' Map.empty) [])) ''Server'' = Some [''web-share'']"
  using Server_header_on_every_branch [where lib = exampleLib
      and req = "exampleRequest ''/%zz'' Map.empty" and resp = newResponseWriter
      and ts = 1530000000 and root = "''/srv/share''" and tr = "[]"]
  by (simp add: handler_def StatusBadRequest_def example_defs)

text \<open>
  C9. When the request URI cannot be decoded, the response is what \<^verbatim>\<open>http.Error\<close>
  makes of the incoming writer with \<^verbatim>\<open>Server\<close> set and nothing else: its headers are
  those of the incoming writer with \<^verbatim>\<open>Server\<close> and the two headers that
  \<^verbatim>\<open>http.Error\<close> sets. \<^verbatim>\<open>Cache-Control\<close>, \<^verbatim>\<open>Pragma\<close> and \<^verbatim>\<open>Expires\<close> are as they
  came in (absent, on a new writer), and \<^verbatim>\<open>Content-Type\<close> is not
  \<^verbatim>\<open>image/x-icon\<close>.
\<close>

theorem invalid_URI_only_Server_header:
  assumes "url_QueryUnescape lib (RequestURI req) = Inl err"
  shows "fst (handler lib ts root resp req tr)
           = http_Error (resp\<lparr>header := (header resp)(''Server'' \<mapsto> [''web-share''])\<rparr>)
               ''Invalid URI'' 400
     \<and> header (fst (handler lib ts root resp req tr))
           = (header resp)(''Server'' \<mapsto> [''web-share''],
                           ''Content-Type'' \<mapsto> [''text/plain; charset=utf-8''],
                           ''X-Content-Type-Options'' \<mapsto> [''nosniff''])
     \<and> header (fst (handler lib ts root resp req tr)) ''Cache-Control'' = header resp ''Cache-Control''
     \<and> header (fst (handler lib ts root resp req tr)) ''Pragma'' = header resp ''Pragma''
     \<and> header (fst (handler lib ts root resp req tr)) ''Expires'' = header resp ''Expires''
     \<and> header (fst (handler lib ts root resp req tr)) ''Content-Type'' \<noteq> Some [''image/x-icon'']"
proof -
  let ?h = "handler lib ts root resp req tr"
  have eq: "fst ?h = http_Error (SetHeader resp ''Server'' ''web-share'') ''Invalid URI'' 400"
    using assms by (simp add: handler_invalid)
  have a: "fst ?h = http_Error (resp\<lparr>header := (header resp)(''Server'' \<mapsto> [''web-share''])\<rparr>)
               ''Invalid URI'' 400"
    by (simp add: eq SetHeader_eq)
  have b: "header (fst ?h) = (header resp)(''Server'' \<mapsto> [''web-share''],
                           ''Content-Type'' \<mapsto> [''text/plain; charset=utf-8''],
                           ''X-Content-Type-Options'' \<mapsto> [''nosniff''])"
    by (simp add: eq http_Error_header SetHeader_header)
  have c: "header (fst ?h) ''Cache-Control'' = header resp ''Cache-Control''"
    by (simp add: b)
  have d: "header (fst ?h) ''Pragma'' = header resp ''Pragma''"
    by (simp add: b)
  have e: "header (fst ?h) ''Expires'' = header resp ''Expires''"
    by (simp add: b)
  have f: "header (fst ?h) ''Content-Type'' \<noteq> Some [''image/x-icon'']"
    by (simp add: b)
  from a b c d e f show ?thesis by blast
qed

text \<open>
  The request \<^verbatim>\<open>GET /%zz\<close> on a new writer: three headers, none of them a cache
  directive.
\<close>

theorem invalid_URI_only_Server_header_witness:
  "header (fst (handler exampleLib 1530000000 ''/srv/share'' newResponseWriter
                  (exampleRequest ''/%zz'' Map.empty) []))
     = [''Server'' \<mapsto> [''web-share''],
        ''Content-Type'' \<mapsto> [''text/plain; charset=utf-8''],
        ''X-Content-Type-Options'' \<mapsto> [''nosniff'']]
   \<and> header (fst (handler exampleLib 1530000000 ''/srv/share'' newResponseWriter
                  (exampleRequest ''/%zz'' Map.empty) [])) ''Cache-Control'' = None
   \<and> header (fst (handler exampleLib 1530000000 ''/srv/share'' newResponseWriter
                  (exampleRequest ''/%zz'' Map.empty) [])) ''Pragma'' = None
   \<and> header (fst (handler exampleLib 1530000000 ''/srv/share'' newResponseWriter
                  (exampleRequest ''/%zz'' Map.empty) [])) ''Expires'' = None"
  using invalid_URI_only_Server_header [where lib = exampleLib
      and req = "exampleRequest ''/%zz'' Map.empty"
      and err = "''invalid URL escape \"%zz\"''" and resp = newResponseWriter
      and ts = 1530000000 and root = "''/srv/share''" and tr = "[]"]
  by (simp add: exampleLib_def exampleRequest_def newResponseWriter_def http_Error_header
        example_QueryUnescape_def ishex_def)

subsection \<open>shortenURI, algebraically\<close>

text \<open>
  C10, as the code has it. \<^const>\<open>shortenURI\<close> is idempotent; its result agrees with its
  argument on the first 500 bytes and is never longer than 504 bytes; and it returns
  its argument unchanged exactly when the argument is at most 500 bytes long or is a
  504-byte string that already ends in the marker \<^verbatim>\<open>" ..."\<close>.
\<close>

theorem shortenURI_idempotent_prefix_bound:
  "shortenURI (shortenURI u) = shortenURI u
   \<and> take 500 (shortenURI u) = take 500 u
   \<and> length (shortenURI u) \<le> 504
   \<and> (shortenURI u = u \<longleftrightarrow> length u \<le> 500 \<or> (length u = 504 \<and> drop 500 u = '' ...''))"
proof (cases "length u > 500")
  case False
  then show ?thesis using shortenURI_fixed_iff [of u] by (simp add: shortenURI_short)
next
  case True
  have l: "length (shortenURI u) > 500" using True by (simp add: shortenURI_length_long)
  have "shortenURI (shortenURI u) = take 500 (shortenURI u) @ '' ...''"
    using l by (rule shortenURI_long)
  also have "\<dots> = take 500 u @ '' ...''" using True by (simp add: shortenURI_long)
  also have "\<dots> = shortenURI u" using True by (simp add: shortenURI_long)
  finally have idem: "shortenURI (shortenURI u) = shortenURI u" .
  have pre: "take 500 (shortenURI u) = take 500 u" using True by (simp add: shortenURI_long)
  have len: "length (shortenURI u) \<le> 504" using True by (simp add: shortenURI_length_long)
  from idem pre len shortenURI_fixed_iff [of u] show ?thesis by blast
qed

text \<open>A string of 600 bytes: shortened, and shortening the result changes nothing.\<close>

theorem shortenURI_idempotent_prefix_bound_witness:
  "shortenURI (shortenURI (replicate 600 CHR ''a'')) = shortenURI (replicate 600 CHR ''a'')
   \<and> length (shortenURI (replicate 600 CHR ''a'')) \<le> 504
   \<and> shortenURI (replicate 600 CHR ''a'') \<noteq> replicate 600 CHR ''a''"
  using shortenURI_idempotent_prefix_bound [of "replicate 600 CHR ''a''"] by simp

text \<open>
  C10, as the claim words its last part: "unchanged exactly when the length is at most
  500". A 504-byte string that already ends in the marker is longer than 500 bytes and
  is returned unchanged.
\<close>

theorem shortenURI_unchanged_beyond_500:
  "length (replicate 500 CHR ''a'' @ '' ...'') = 504
   \<and> shortenURI (replicate 500 CHR ''a'' @ '' ...'') = replicate 500 CHR ''a'' @ '' ...''"
  by (simp add: shortenURI_def maxURI_def)

subsection \<open>Further properties of startup\<close>

text \<open>
  X1. Whatever its arguments, \<^verbatim>\<open>die\<close> writes one line that starts with
  \<^verbatim>\<open>ERROR: \<close> and exits with status 1; the line holds the message, the error, both
  (separated by a colon), or \<^verbatim>\<open>Unknown internal error\<close> when there is neither.
\<close>

theorem die_writes_ERROR_line_and_exits_1:
  "\<exists>text. die msg err = Exit (''ERROR: '' @ text @ ''\<newline>'') 1
      \<and> text = (if msg \<noteq> [] \<and> err \<noteq> None then msg @ '': '' @ Error err
                else if msg \<noteq> [] then msg
                else if err \<noteq> None then Error err
                else ''Unknown internal error'')"
  by (simp add: die_def)

text \<open>
  X2. With a valid port and no interface name, \<^verbatim>\<open>main\<close> exits with status 1 after
  writing \<^verbatim>\<open>ERROR: Network interface is not specified\<close>, on every machine.
\<close>

theorem missing_interface_name_exits_1:
  assumes "port fl \<noteq> 0" and "port fl \<le> 0xFFFF" and "itf fl = []"
  shows "main h lib ts fl
           = ([WriteString ''ERROR: Network interface is not specified\<newline>''], Exited 1)"
  using assms by (auto simp: main_def terminate_def die_def)

text \<open>The example host started without an interface name.\<close>

theorem missing_interface_name_exits_1_witness:
  "main exampleHost exampleLib 1530000000 \<lparr>itf = [], port = 8080, dir = ''.''\<rparr>
     = ([WriteString ''ERROR: Network interface is not specified\<newline>''], Exited 1)"
  using missing_interface_name_exits_1 [where h = exampleHost and lib = exampleLib
      and ts = 1530000000 and fl = "\<lparr>itf = [], port = 8080, dir = ''.''\<rparr>"]
  by simp

text \<open>
  X3. When the directory argument resolves to something that exists and is not a
  directory, \<^verbatim>\<open>absPath\<close> ends the process with status 1 and the message
  \<^verbatim>\<open>ERROR: Not a directory: \<close> followed by the absolute path. In \<^verbatim>\<open>main\<close> this
  happens after the address has been resolved and \<^verbatim>\<open>Listening on\<close> has been logged,
  and before any listener exists.
\<close>

theorem root_not_a_directory_exits_1:
  assumes "filepath_Abs h (dir fl) = Inr root" and "os_Stat h root = Inr info"
    and "\<not> IsDir info"
    and "port fl \<noteq> 0" and "port fl \<le> 0xFFFF" and "itf fl \<noteq> []"
    and "findIP h (itf fl) = Inr ip" and "ip \<noteq> []"
  shows "absPath h (dir fl) = Inl (Exit (''ERROR: Not a directory: '' @ root @ ''\<newline>'') 1)
     \<and> main h lib ts fl
         = ([Println [''Listening on'', ip @ '':'' @ uintToString (port fl)],
             WriteString (''ERROR: Not a directory: '' @ root @ ''\<newline>'')], Exited 1)"
proof -
  have a: "absPath h (dir fl) = Inl (Exit (''ERROR: Not a directory: '' @ root @ ''\<newline>'') 1)"
    using assms(1,2,3) by (simp add: absPath_def die_def)
  have p: "\<not> (port fl = 0 \<or> 0xFFFF < port fl)" using assms(4,5) by auto
  have "main h lib ts fl
         = ([Println [''Listening on'', ip @ '':'' @ uintToString (port fl)],
             WriteString (''ERROR: Not a directory: '' @ root @ ''\<newline>'')], Exited 1)"
    using p assms(6,7,8) a by (simp add: main_def serveFrom_def terminate_def Let_def)
  with a show ?thesis by blast
qed

text \<open>The example host asked to serve the regular file \<^verbatim>\<open>a.txt\<close>.\<close>

theorem root_not_a_directory_exits_1_witness:
  "absPath exampleHost ''a.txt''
     = Inl (Exit ''ERROR: Not a directory: /srv/share/a.txt\<newline>'' 1)
   \<and> main exampleHost exampleLib 1530000000 \<lparr>itf = ''eth0'', port = 8080, dir = ''a.txt''\<rparr>
       = ([Println [''Listening on'', ''192.168.1.10:8080''],
           WriteString ''ERROR: Not a directory: /srv/share/a.txt\<newline>''], Exited 1)"
proof -
  have f: "findIP exampleHost ''eth0'' = Inr ''192.168.1.10''"
    by (simp add: findIP_def exampleHost_def FlagUp_def To4_def IP_String_def)
  show ?thesis
    using root_not_a_directory_exits_1 [where h = exampleHost and lib = exampleLib
        and ts = 1530000000 and fl = "\<lparr>itf = ''eth0'', port = 8080, dir = ''a.txt''\<rparr>"
        and root = "''/srv/share/a.txt''" and info = "\<lparr>IsDir = False\<rparr>"
        and ip = "''192.168.1.10''"] f
    by (simp add: exampleHost_def uintToString_def)
qed

text \<open>
  X4. With a valid port, an interface whose first IPv4 address is \<open>ip\<close> and a
  directory that \<^verbatim>\<open>absPath\<close> accepts as \<open>root\<close>, \<^verbatim>\<open>main\<close> logs the address and the
  root and serves on \<open>ip:port\<close> with the handler for \<open>root\<close>.
\<close>

theorem startup_listens_on_first_IPv4_and_port:
  assumes "port fl \<noteq> 0" and "port fl \<le> 0xFFFF" and "itf fl \<noteq> []"
    and "findIP h (itf fl) = Inr ip" and "ip \<noteq> []"
    and "absPath h (dir fl) = Inr root"
    and "ListenAndServe h (ip @ '':'' @ uintToString (port fl)) = None"
  shows "main h lib ts fl
           = ([Println [''Listening on'', ip @ '':'' @ uintToString (port fl)],
               Println [''Serving files from'', root]],
              Serving (ip @ '':'' @ uintToString (port fl)) (handler lib ts root))"
proof -
  have p: "\<not> (port fl = 0 \<or> 0xFFFF < port fl)" using assms(1,2) by auto
  show ?thesis
    using p assms(3-7) by (simp add: main_def serveFrom_def Let_def)
qed

text \<open>The example host started on \<^verbatim>\<open>eth0\<close>, port 8080, in its working directory.\<close>

theorem startup_listens_on_first_IPv4_and_port_witness:
  "main exampleHost exampleLib 1530000000 \<lparr>itf = ''eth0'', port = 8080, dir = ''.''\<rparr>
     = ([Println [''Listening on'', ''192.168.1.10:8080''],
         Println [''Serving files from'', ''/srv/share'']],
        Serving ''192.168.1.10:8080'' (handler exampleLib 1530000000 ''/srv/share''))"
proof -
  have f: "findIP exampleHost ''eth0'' = Inr ''192.168.1.10''"
    by (simp add: findIP_def exampleHost_def FlagUp_def To4_def IP_String_def)
  have a: "absPath exampleHost ''.'' = Inr ''/srv/share''"
    by (simp add: absPath_def exampleHost_def)
  show ?thesis
    using startup_listens_on_first_IPv4_and_port [where h = exampleHost and lib = exampleLib
        and ts = 1530000000 and fl = "\<lparr>itf = ''eth0'', port = 8080, dir = ''.''\<rparr>"
        and root = "''/srv/share''" and ip = "''192.168.1.10''"] f a
    by (simp add: exampleHost_def uintToString_def)
qed

end
